theory Spec2Isabelle
  imports Complex_Main
begin

section \<open>JavaScript Number values\<close>

text \<open>
  The amount of an invoice is a JavaScript Number: an IEEE 754 binary64 value. A finite
  value is kept as a sign flag (\<open>True\<close> is negative, so that \<open>-0\<close> exists) and the
  exact rational magnitude of the double; the operations below only ever build
  magnitudes that are representable doubles.
\<close>

datatype number = NaN | Infinity bool | Finite bool rat

text \<open>\<open>pow2 e\<close> is \<open>2\<close> to the power \<open>e\<close> for an integer exponent.\<close>

definition pow2 :: "int \<Rightarrow> rat" where
  "pow2 e = (if 0 \<le> e then 2 ^ nat e else 1 / 2 ^ nat (- e))"

text \<open>Number of binary digits of a positive integer (\<open>0\<close> for \<open>n \<le> 0\<close>).\<close>

function bit_length :: "int \<Rightarrow> int" where
  "bit_length n = (if n \<le> 0 then 0 else 1 + bit_length (n div 2))"
  by pat_completeness auto
termination
  by (relation "measure nat") auto

declare bit_length.simps [simp del]

text \<open>For \<open>x > 0\<close>: the integer \<open>e\<close> with \<open>2^e \<le> x < 2^(e+1)\<close>.\<close>

definition floor_log2 :: "rat \<Rightarrow> int" where
  "floor_log2 x =
     (if 1 \<le> x then bit_length \<lfloor>x\<rfloor> - 1
      else - bit_length (\<lceil>1 / x\<rceil> - 1))"

text \<open>
  The spacing of the doubles around \<open>x > 0\<close>: 53 significant bits for a normal value,
  the fixed spacing \<open>2^-1074\<close> below the smallest normal value \<open>2^-1022\<close>.
\<close>

definition ulp :: "rat \<Rightarrow> rat" where
  "ulp x = pow2 (max (floor_log2 x) (- 1022) - 52)"

text \<open>Rounding to the nearest integer, a tie going to the even one.\<close>

definition round_half_even :: "rat \<Rightarrow> int" where
  "round_half_even q =
     (let n = \<lfloor>q\<rfloor>; r = q - of_int n
      in if r < 1 / 2 then n
         else if 1 / 2 < r then n + 1
         else if even n then n else n + 1)"

text \<open>
  Rounding of an exact magnitude \<open>x \<ge> 0\<close> to binary64, round-to-nearest, ties to even.
  \<open>None\<close> is overflow: the rounded value would be \<open>2^1024\<close> or more.
\<close>

definition round_binary64 :: "rat \<Rightarrow> rat option" where
  "round_binary64 x =
     (if x = 0 then Some 0
      else let u = ulp x; y = of_int (round_half_even (x / u)) * u
           in if 2 ^ 1024 \<le> y then None else Some y)"

text \<open>The Number for the exact value with sign \<open>neg\<close> and magnitude \<open>x\<close>.\<close>

definition to_number :: "bool \<Rightarrow> rat \<Rightarrow> number" where
  "to_number neg x = (case round_binary64 x of None \<Rightarrow> Infinity neg | Some y \<Rightarrow> Finite neg y)"

text \<open>The \<open>*\<close> operator on Numbers (ECMAScript Number::multiply).\<close>

fun times_number :: "number \<Rightarrow> number \<Rightarrow> number" where
  "times_number NaN _ = NaN"
| "times_number _ NaN = NaN"
| "times_number (Infinity s) (Infinity t) = Infinity (s \<noteq> t)"
| "times_number (Infinity s) (Finite t y) = (if y = 0 then NaN else Infinity (s \<noteq> t))"
| "times_number (Finite s x) (Infinity t) = (if x = 0 then NaN else Infinity (s \<noteq> t))"
| "times_number (Finite s x) (Finite t y) = to_number (s \<noteq> t) (x * y)"

text \<open>
  \<open>Math.round\<close>: the nearest integer, a tie going towards \<open>+\<infinity>\<close>; a result that is zero
  keeps the sign of the argument.
\<close>

fun Math_round :: "number \<Rightarrow> number" where
  "Math_round NaN = NaN"
| "Math_round (Infinity s) = Infinity s"
| "Math_round (Finite s x) =
     (let v = (if s then - x else x); n = \<lfloor>v + 1 / 2\<rfloor>
      in if n = 0 then Finite (s \<or> v < 0) 0 else Finite (n < 0) (of_int \<bar>n\<bar>))"

subsection \<open>Coercion of a string to a Number\<close>

text \<open>
  \<open>Number(s)\<close> on a string follows the StringNumericLiteral grammar of ECMAScript: the
  string is trimmed of white space; the empty string is \<open>+0\<close>; then come an unsigned
  binary, octal or hexadecimal integer, or an optionally signed \<open>Infinity\<close> or decimal
  literal with optional fraction and exponent; anything else is \<open>NaN\<close>. The exact
  mathematical value of the literal is rounded to the nearest double. Strings are lists of
  8-bit characters here, so the white space characters above U+00FF are not represented.
\<close>

definition StrWhiteSpaceChar :: "char \<Rightarrow> bool" where
  "StrWhiteSpaceChar c \<longleftrightarrow>
     c \<in> set [CHR 0x09, CHR 0x0A, CHR 0x0B, CHR 0x0C, CHR 0x0D, CHR 0x20, CHR 0xA0]"

definition trim :: "string \<Rightarrow> string" where
  "trim s = rev (dropWhile StrWhiteSpaceChar (rev (dropWhile StrWhiteSpaceChar s)))"

definition digit_value :: "char \<Rightarrow> nat option" where
  "digit_value = map_of
     [(CHR ''0'', 0), (CHR ''1'', 1), (CHR ''2'', 2), (CHR ''3'', 3), (CHR ''4'', 4),
      (CHR ''5'', 5), (CHR ''6'', 6), (CHR ''7'', 7), (CHR ''8'', 8), (CHR ''9'', 9),
      (CHR ''a'', 10), (CHR ''b'', 11), (CHR ''c'', 12), (CHR ''d'', 13), (CHR ''e'', 14),
      (CHR ''f'', 15),
      (CHR ''A'', 10), (CHR ''B'', 11), (CHR ''C'', 12), (CHR ''D'', 13), (CHR ''E'', 14),
      (CHR ''F'', 15)]"

text \<open>A character is a digit of base \<open>b\<close> when its value is below \<open>b\<close>.\<close>

definition is_digit :: "nat \<Rightarrow> char \<Rightarrow> bool" where
  "is_digit b c = (case digit_value c of None \<Rightarrow> False | Some d \<Rightarrow> d < b)"

text \<open>The value of a digit string in base \<open>b\<close>, most significant digit first.\<close>

definition digits_value :: "nat \<Rightarrow> string \<Rightarrow> int" where
  "digits_value b ds = foldl (\<lambda>a c. a * int b + int (case digit_value c of None \<Rightarrow> 0 | Some d \<Rightarrow> d)) 0 ds"

text \<open>A non-empty string of digits of base \<open>b\<close>, and nothing else.\<close>

definition Digits :: "nat \<Rightarrow> string \<Rightarrow> int option" where
  "Digits b s = (if s \<noteq> [] \<and> list_all (is_digit b) s then Some (digits_value b s) else None)"

definition SignedInteger :: "string \<Rightarrow> int option" where
  "SignedInteger s =
     (case s of
        [] \<Rightarrow> None
      | c # r \<Rightarrow>
          if c = CHR ''+'' then Digits 10 r
          else if c = CHR ''-'' then map_option uminus (Digits 10 r)
          else Digits 10 s)"

text \<open>What follows the digits of a decimal literal: nothing, or an exponent part.\<close>

definition ExponentPart_opt :: "string \<Rightarrow> int option" where
  "ExponentPart_opt s =
     (case s of
        [] \<Rightarrow> Some 0
      | c # r \<Rightarrow> if c = CHR ''e'' \<or> c = CHR ''E'' then SignedInteger r else None)"

text \<open>The exact value of an unsigned decimal literal (\<open>Infinity\<close> apart), if it is one.\<close>

definition StrUnsignedDecimalLiteral :: "string \<Rightarrow> rat option" where
  "StrUnsignedDecimalLiteral s =
     (let ip = takeWhile (is_digit 10) s;
          r1 = dropWhile (is_digit 10) s;
          fr = (case r1 of [] \<Rightarrow> [] | c # t \<Rightarrow> if c = CHR ''.'' then t else []);
          fp = takeWhile (is_digit 10) fr;
          r2 = (case r1 of [] \<Rightarrow> [] | c # t \<Rightarrow>
                  if c = CHR ''.'' then dropWhile (is_digit 10) t else r1)
      in if ip = [] \<and> fp = [] then None
         else case ExponentPart_opt r2 of
                None \<Rightarrow> None
              | Some e \<Rightarrow>
                  Some (of_int (digits_value 10 (ip @ fp)) *
                        (if int (length fp) \<le> e then 10 ^ nat (e - int (length fp))
                         else 1 / 10 ^ nat (int (length fp) - e))))"

definition StrDecimalLiteral :: "bool \<Rightarrow> string \<Rightarrow> number" where
  "StrDecimalLiteral neg s =
     (if s = ''Infinity'' then Infinity neg
      else case StrUnsignedDecimalLiteral s of
             None \<Rightarrow> NaN
           | Some mv \<Rightarrow> to_number neg mv)"

text \<open>\<open>0b\<close>, \<open>0o\<close> and \<open>0x\<close> literals (prefix in either case): the base and the digits.\<close>

definition NonDecimalIntegerLiteral :: "string \<Rightarrow> int option" where
  "NonDecimalIntegerLiteral s =
     (case s of
        z # p # ds \<Rightarrow>
          if z \<noteq> CHR ''0'' then None
          else if p = CHR ''b'' \<or> p = CHR ''B'' then Digits 2 ds
          else if p = CHR ''o'' \<or> p = CHR ''O'' then Digits 8 ds
          else if p = CHR ''x'' \<or> p = CHR ''X'' then Digits 16 ds
          else None
      | _ \<Rightarrow> None)"

definition StringToNumber :: "string \<Rightarrow> number" where
  "StringToNumber str =
     (let s = trim str
      in if s = [] then Finite False 0
         else case NonDecimalIntegerLiteral s of
                Some n \<Rightarrow> to_number False (of_int n)
              | None \<Rightarrow>
                  (case s of
                     [] \<Rightarrow> NaN
                   | c # r \<Rightarrow>
                       if c = CHR ''-'' then StrDecimalLiteral True r
                       else if c = CHR ''+'' then StrDecimalLiteral False r
                       else StrDecimalLiteral False s))"

section \<open>Form data and schema validation\<close>

text \<open>
  \<open>formData.get(name)\<close> yields the first entry of that name: a string, a file, or
  \<open>null\<close> when there is none.
\<close>

datatype form_value = Null | Text string | File

type_synonym FormData = "(string \<times> form_value) list"

definition FormData_get :: "FormData \<Rightarrow> string \<Rightarrow> form_value" where
  "FormData_get formData name = (case map_of formData name of None \<Rightarrow> Null | Some v \<Rightarrow> v)"

text \<open>
  \<open>Number(v)\<close> for the values a form can deliver: \<open>null\<close> is \<open>+0\<close>, a string is read
  by \<open>StringToNumber\<close>, a file (an object printing as \<open>[object File]\<close>) is \<open>NaN\<close>.
\<close>

fun Number :: "form_value \<Rightarrow> number" where
  "Number Null = Finite False 0"
| "Number (Text s) = StringToNumber s"
| "Number File = NaN"

text \<open>Values handed back to the page: \<open>undefined\<close>, strings, arrays and objects.\<close>

datatype json = JUndefined | JNull | JString string | JArray "json list"
  | JObject "(string \<times> json) list"

text \<open>
  The validation library (zod 3) reports a failure as a list of issues, each with a code,
  the key of the field it is about and a message. The three field schemas of \<open>FormSchema\<close>
  that the actions use, on the values a form can deliver:
  \<^item> \<open>z.string({invalid_type_error})\<close> accepts every string and nothing else;
  \<^item> \<open>z.coerce.number()\<close> applies \<open>Number\<close> and rejects only \<open>NaN\<close>;
  \<^item> \<open>z.enum(values, {invalid_type_error})\<close> accepts the listed strings.
  A message given in the schema is used for an \<open>invalid_type\<close> issue; the others are the
  library's default messages.
\<close>

datatype ZodIssue = ZodIssue (issue_code: string) (issue_path: string) (issue_message: string)

definition z_string :: "string \<Rightarrow> string \<Rightarrow> form_value \<Rightarrow> ZodIssue list + string" where
  "z_string invalid_type_error key v =
     (case v of
        Text s \<Rightarrow> Inr s
      | _ \<Rightarrow> Inl [ZodIssue ''invalid_type'' key invalid_type_error])"

definition z_coerce_number :: "string \<Rightarrow> form_value \<Rightarrow> ZodIssue list + number" where
  "z_coerce_number key v =
     (case Number v of
        NaN \<Rightarrow> Inl [ZodIssue ''invalid_type'' key ''Expected number, received nan'']
      | n \<Rightarrow> Inr n)"

definition quoted :: "string \<Rightarrow> string" where
  "quoted s = [CHR 0x27] @ s @ [CHR 0x27]"

fun joinValues :: "string list \<Rightarrow> string" where
  "joinValues [] = []"
| "joinValues [v] = quoted v"
| "joinValues (v # vs) = quoted v @ '' | '' @ joinValues vs"

definition z_enum :: "string list \<Rightarrow> string \<Rightarrow> string \<Rightarrow> form_value \<Rightarrow> ZodIssue list + string"
  where
  "z_enum values invalid_type_error key v =
     (case v of
        Text s \<Rightarrow>
          if s \<in> set values then Inr s
          else Inl [ZodIssue ''invalid_enum_value'' key
                      (''Invalid enum value. Expected '' @ joinValues values @
                       '', received '' @ quoted s)]
      | _ \<Rightarrow> Inl [ZodIssue ''invalid_type'' key invalid_type_error])"

text \<open>
  \<open>CreateInvoice\<close> and \<open>UpdateInvoice\<close> are both \<open>FormSchema.omit({ id, date })\<close>: an
  object schema with the fields \<open>customerId\<close>, \<open>amount\<close> and \<open>status\<close>, in that order.
\<close>

record invoice_fields =
  customerId :: string
  amount :: number
  status :: string

definition issues_of :: "ZodIssue list + 'a \<Rightarrow> ZodIssue list" where
  "issues_of r = (case r of Inl is \<Rightarrow> is | Inr _ \<Rightarrow> [])"

text \<open>
  \<open>safeParse\<close> of the object \<open>{customerId, amount, status}\<close>: every field is parsed and
  the issues of all fields are collected in field order; the parse succeeds when there
  is none.
\<close>

definition safeParse :: "form_value \<Rightarrow> form_value \<Rightarrow> form_value \<Rightarrow> ZodIssue list + invoice_fields"
  where
  "safeParse c a s =
     (let rc = z_string ''Please select a customer'' ''customerId'' c;
          ra = z_coerce_number ''amount'' a;
          rs = z_enum [''pending'', ''paid''] ''Please select invoice status'' ''status'' s
      in case (rc, ra, rs) of
           (Inr cv, Inr av, Inr sv) \<Rightarrow> Inr \<lparr>customerId = cv, amount = av, status = sv\<rparr>
         | _ \<Rightarrow> Inl (issues_of rc @ issues_of ra @ issues_of rs))"

text \<open>
  \<open>error.format()\<close>: an object with an (here empty) top-level \<open>_errors\<close> list and, for
  every field with an issue, in order of first appearance, a nested object
  \<open>{ _errors: [messages] }\<close>.
\<close>

fun push_error :: "string \<Rightarrow> string \<Rightarrow> (string \<times> string list) list \<Rightarrow> (string \<times> string list) list"
  where
  "push_error k m [] = [(k, [m])]"
| "push_error k m ((k', ms) # r) =
     (if k = k' then (k', ms @ [m]) # r else (k', ms) # push_error k m r)"

definition fieldErrors :: "ZodIssue list \<Rightarrow> (string \<times> string list) list" where
  "fieldErrors issues = foldl (\<lambda>acc i. push_error (issue_path i) (issue_message i) acc) [] issues"

definition format :: "ZodIssue list \<Rightarrow> json" where
  "format issues =
     JObject ((''_errors'', JArray []) #
              map (\<lambda>(k, ms). (k, JObject [(''_errors'', JArray (map JString ms))]))
                  (fieldErrors issues))"

text \<open>
  The declared result type of the actions:
  \<^verbatim>\<open>State = { errors?: { customerId?: string[]; amount?: string[]; status?: string[] };
           message?: string | null }\<close>
  as a predicate on values: a declared property that is present has its declared type.
\<close>

definition is_string_array :: "json \<Rightarrow> bool" where
  "is_string_array v =
     (case v of JArray xs \<Rightarrow> list_all (\<lambda>x. case x of JString _ \<Rightarrow> True | _ \<Rightarrow> False) xs
      | _ \<Rightarrow> False)"

definition optional :: "(json \<Rightarrow> bool) \<Rightarrow> (string \<times> json) list \<Rightarrow> string \<Rightarrow> bool" where
  "optional P fs k =
     (case map_of fs k of None \<Rightarrow> True | Some JUndefined \<Rightarrow> True | Some v \<Rightarrow> P v)"

definition is_State_errors :: "json \<Rightarrow> bool" where
  "is_State_errors v =
     (case v of
        JObject fs \<Rightarrow>
          optional is_string_array fs ''customerId'' \<and>
          optional is_string_array fs ''amount'' \<and>
          optional is_string_array fs ''status''
      | _ \<Rightarrow> False)"

definition is_State :: "json \<Rightarrow> bool" where
  "is_State v =
     (case v of
        JObject fs \<Rightarrow>
          optional is_State_errors fs ''errors'' \<and>
          optional (\<lambda>m. case m of JString _ \<Rightarrow> True | JNull \<Rightarrow> True | _ \<Rightarrow> False) fs ''message''
      | _ \<Rightarrow> False)"

section \<open>The world of an action: storage, signals, exceptions\<close>

text \<open>A row of the table \<open>invoices\<close>: id, customer_id, amount, status, date.\<close>

datatype invoice_row =
  Row (row_id: string) (row_customer_id: string) (row_amount: number) (row_status: string)
      (row_date: string)

text \<open>
  The three statements of the source, with their bound values:
  \<^verbatim>\<open>INSERT INTO invoices (customer_id, amount, status, date) VALUES (...)\<close>,
  \<^verbatim>\<open>UPDATE invoices SET customer_id = .., amount = .., status = .. WHERE id = ..\<close> and
  \<^verbatim>\<open>DELETE FROM invoices WHERE id = ..\<close>.
\<close>

datatype statement =
    INSERT string number string string
  | UPDATE string number string string
  | DELETE string

text \<open>
  What a statement that succeeds does to the table. The id of an inserted row is not
  given by the statement; the database chooses it (\<open>new_id\<close>).
\<close>

fun run_statement :: "string \<Rightarrow> statement \<Rightarrow> invoice_row list \<Rightarrow> invoice_row list" where
  "run_statement new_id (INSERT c a s d) rows = rows @ [Row new_id c a s d]"
| "run_statement new_id (UPDATE c a s i) rows =
     map (\<lambda>r. if row_id r = i then Row (row_id r) c a s (row_date r) else r) rows"
| "run_statement new_id (DELETE i) rows = filter (\<lambda>r. row_id r \<noteq> i) rows"

text \<open>
  Exceptions: an \<open>AuthError\<close> of the sign-in library with its \<open>type\<close> field, the
  exception by which \<open>redirect\<close> leaves the action, and any other error.
\<close>

datatype js_error = AuthError string | NEXT_REDIRECT string | Error string

text \<open>What an action does to the outside, in order.\<close>

datatype event =
    Sql statement
  | RevalidatePath string
  | Redirect string
  | ConsoleLog "(string \<times> form_value) list"
  | SignIn string FormData

record world =
  invoices :: "invoice_row list"
  trace :: "event list"

text \<open>
  What the action does not decide: the clock, whether the database throws on a statement
  (and what), the id it gives a new row, and whether the sign-in procedure throws.
\<close>

record env =
  toISOString :: string
  sql_throws :: "statement \<Rightarrow> invoice_row list \<Rightarrow> js_error option"
  new_row_id :: "invoice_row list \<Rightarrow> string"
  signIn_throws :: "string \<Rightarrow> FormData \<Rightarrow> js_error option"

text \<open>
  A statement of the action completes normally, returns from the action with a value, or
  throws. A sequence stops at the first completion that is not normal; \<open>try_catch\<close> hands
  a thrown error to the handler.
\<close>

datatype completion = Normal | Return json | Throw js_error

type_synonym stmt = "world \<Rightarrow> completion \<times> world"

definition seq :: "stmt \<Rightarrow> stmt \<Rightarrow> stmt" where
  "seq s1 s2 w = (case s1 w of (Normal, w') \<Rightarrow> s2 w' | (c, w') \<Rightarrow> (c, w'))"

definition try_catch :: "stmt \<Rightarrow> (js_error \<Rightarrow> stmt) \<Rightarrow> stmt" where
  "try_catch body handler w = (case body w of (Throw e, w') \<Rightarrow> handler e w' | r \<Rightarrow> r)"

definition return :: "json \<Rightarrow> stmt" where
  "return v w = (Return v, w)"

definition throw :: "js_error \<Rightarrow> stmt" where
  "throw e w = (Throw e, w)"

definition emit :: "event \<Rightarrow> world \<Rightarrow> world" where
  "emit ev w = w\<lparr>trace := trace w @ [ev]\<rparr>"

text \<open>
  \<open>await sql`...`\<close>: the statement is sent; it throws, leaving the table as it was,
  or it is carried out.
\<close>

definition sql :: "env \<Rightarrow> statement \<Rightarrow> stmt" where
  "sql env q w =
     (case sql_throws env q (invoices w) of
        Some e \<Rightarrow> (Throw e, emit (Sql q) w)
      | None \<Rightarrow>
          (Normal,
           emit (Sql q) (w\<lparr>invoices := run_statement (new_row_id env (invoices w)) q (invoices w)\<rparr>)))"

text \<open>\<open>revalidatePath\<close> signals that the cached page of the path is stale and returns.\<close>

definition revalidatePath :: "string \<Rightarrow> stmt" where
  "revalidatePath path w = (Normal, emit (RevalidatePath path) w)"

text \<open>\<open>redirect\<close> never returns: it leaves the action by throwing.\<close>

definition redirect :: "string \<Rightarrow> stmt" where
  "redirect path w = (Throw (NEXT_REDIRECT path), emit (Redirect path) w)"

definition console_log :: "(string \<times> form_value) list \<Rightarrow> stmt" where
  "console_log v w = (Normal, emit (ConsoleLog v) w)"

definition signIn :: "env \<Rightarrow> string \<Rightarrow> FormData \<Rightarrow> stmt" where
  "signIn env provider formData w =
     (case signIn_throws env provider formData of
        Some e \<Rightarrow> (Throw e, emit (SignIn provider formData) w)
      | None \<Rightarrow> (Normal, emit (SignIn provider formData) w))"

text \<open>
  The result of an action for its caller: the value it returned (\<open>undefined\<close> when the
  body ran to its end) or the exception it threw.
\<close>

datatype outcome = Returned json | Thrown js_error

definition call :: "stmt \<Rightarrow> world \<Rightarrow> outcome \<times> world" where
  "call body w =
     (case body w of
        (Normal, w') \<Rightarrow> (Returned JUndefined, w')
      | (Return v, w') \<Rightarrow> (Returned v, w')
      | (Throw e, w') \<Rightarrow> (Thrown e, w'))"

section \<open>The actions\<close>

text \<open>\<open>s.split('T')[0]\<close>: the part of \<open>s\<close> before the first \<open>T\<close>.\<close>

definition split_T_0 :: "string \<Rightarrow> string" where
  "split_T_0 s = takeWhile (\<lambda>c. c \<noteq> CHR ''T'') s"

definition createInvoice :: "env \<Rightarrow> json \<Rightarrow> FormData \<Rightarrow> world \<Rightarrow> outcome \<times> world" where
  "createInvoice env prevState formData =
     call
      (let validatedFields =
             safeParse (FormData_get formData ''customerId'') (FormData_get formData ''amount'')
               (FormData_get formData ''status'')
       in case validatedFields of
            Inl error \<Rightarrow>
              return (JObject [(''errors'', format error),
                               (''message'', JString ''Validation failed'')])
          | Inr data \<Rightarrow>
              (let amountInCents = times_number (amount data) (Finite False 100);
                   date = split_T_0 (toISOString env)
               in seq (try_catch
                         (sql env (INSERT (customerId data) amountInCents (status data) date))
                         (\<lambda>error. return
                            (JObject [(''message'',
                                       JString ''Database Error: failed to create invoice'')])))
                 (seq (revalidatePath ''/dashboard/invoices'')
                 (seq (redirect ''/dashboard/invoices'')
                      (let rawFormData =
                             [(''customerId'', FormData_get formData ''customerId''),
                              (''amount'', FormData_get formData ''amount''),
                              (''status'', FormData_get formData ''status'')]
                       in console_log rawFormData)))))"

definition updateInvoice :: "env \<Rightarrow> string \<Rightarrow> json \<Rightarrow> FormData \<Rightarrow> world \<Rightarrow> outcome \<times> world"
  where
  "updateInvoice env invoice_id prevState formData =
     call
      (let validatedFields =
             safeParse (FormData_get formData ''customerId'') (FormData_get formData ''amount'')
               (FormData_get formData ''status'')
       in case validatedFields of
            Inl error \<Rightarrow>
              return (JObject [(''errors'', format error),
                               (''message'', JString ''Validation failed'')])
          | Inr data \<Rightarrow>
              (let amountInCents = times_number (amount data) (Finite False 100)
               in seq (try_catch
                         (sql env (UPDATE (customerId data) amountInCents (status data) invoice_id))
                         (\<lambda>error. return
                            (JObject [(''message'',
                                       JString ''Database error: failed to update invoice'')])))
                 (seq (revalidatePath ''/dashboard/invoices'')
                      (redirect ''/dashboard/invoices''))))"

definition deleteInvoice :: "env \<Rightarrow> string \<Rightarrow> world \<Rightarrow> outcome \<times> world" where
  "deleteInvoice env invoice_id =
     call
      (try_catch
         (seq (sql env (DELETE invoice_id)) (revalidatePath ''/dashboard/invoices''))
         (\<lambda>error. return
            (JObject [(''message'', JString ''Database error: failed to delete invoice'')])))"

definition authenticate :: "env \<Rightarrow> json \<Rightarrow> FormData \<Rightarrow> world \<Rightarrow> outcome \<times> world" where
  "authenticate env prevState formData =
     call
      (try_catch
         (signIn env ''credentials'' formData)
         (\<lambda>error.
            case error of
              AuthError type \<Rightarrow>
                if type = ''CredentialsSignin'' then return (JString ''Invalid credentials.'')
                else return (JString ''Something went wrong.'')
            | _ \<Rightarrow> throw error))"

text \<open>The statements an action has sent, read off the trace.\<close>

fun statements :: "event list \<Rightarrow> statement list" where
  "statements [] = []"
| "statements (Sql q # es) = q # statements es"
| "statements (_ # es) = statements es"

section \<open>Notions used in the statements\<close>

text \<open>The parse both actions start with, as a function of the form data.\<close>

definition parse_form :: "FormData \<Rightarrow> ZodIssue list + invoice_fields" where
  "parse_form formData =
     safeParse (FormData_get formData ''customerId'') (FormData_get formData ''amount'')
       (FormData_get formData ''status'')"

text \<open>The statements \<open>createInvoice\<close> and \<open>updateInvoice\<close> send for validated fields.\<close>

definition the_INSERT :: "env \<Rightarrow> invoice_fields \<Rightarrow> statement" where
  "the_INSERT env data =
     INSERT (customerId data) (times_number (amount data) (Finite False 100)) (status data)
       (split_T_0 (toISOString env))"

definition the_UPDATE :: "string \<Rightarrow> invoice_fields \<Rightarrow> statement" where
  "the_UPDATE invoice_id data =
     UPDATE (customerId data) (times_number (amount data) (Finite False 100)) (status data)
       invoice_id"

text \<open>The messages the formatted error object carries for a field: \<open>errors[k]._errors\<close>.\<close>

definition error_list :: "json \<Rightarrow> string \<Rightarrow> json list" where
  "error_list errors k =
     (case errors of
        JObject fs \<Rightarrow>
          (case map_of fs k of
             Some (JObject es) \<Rightarrow> (case map_of es ''_errors'' of Some (JArray ms) \<Rightarrow> ms | _ \<Rightarrow> [])
           | _ \<Rightarrow> [])
      | _ \<Rightarrow> [])"

definition is_Text :: "form_value \<Rightarrow> bool" where
  "is_Text v = (case v of Text _ \<Rightarrow> True | _ \<Rightarrow> False)"

text \<open>The three conditions under which the schema accepts the fields.\<close>

definition valid_form :: "form_value \<Rightarrow> form_value \<Rightarrow> form_value \<Rightarrow> bool" where
  "valid_form c a s \<longleftrightarrow> is_Text c \<and> Number a \<noteq> NaN \<and> s \<in> {Text ''pending'', Text ''paid''}"

text \<open>The events an action added to the trace it started with.\<close>

definition new_events :: "world \<Rightarrow> world \<Rightarrow> event list" where
  "new_events w w' = drop (length (trace w)) (trace w')"

text \<open>
  The amount in cents as the specification words it, \<open>round(amount \<times> 100)\<close>, to be
  compared with what the actions compute.
\<close>

definition spec_amountInCents :: "number \<Rightarrow> number" where
  "spec_amountInCents a = Math_round (times_number a (Finite False 100))"

subsection \<open>Concrete inputs\<close>

text \<open>A database that carries out every statement, and one that cannot be reached.\<close>

definition env_ok :: env where
  "env_ok =
     \<lparr>toISOString = ''2024-03-05T10:11:12.000Z'',
      sql_throws = (\<lambda>q rows. None),
      new_row_id = (\<lambda>rows. ''i2''),
      signIn_throws = (\<lambda>provider formData. None)\<rparr>"

definition env_down :: env where
  "env_down =
     \<lparr>toISOString = ''2024-03-05T10:11:12.000Z'',
      sql_throws = (\<lambda>q rows. Some (Error ''connect ECONNREFUSED'')),
      new_row_id = (\<lambda>rows. ''i2''),
      signIn_throws = (\<lambda>provider formData. Some (AuthError ''CredentialsSignin''))\<rparr>"

definition world_1 :: world where
  "world_1 =
     \<lparr>invoices = [Row ''i1'' ''c7'' (Finite False 100) ''paid'' ''2024-01-01''],
      trace = []\<rparr>"

definition form :: "string \<Rightarrow> string \<Rightarrow> string \<Rightarrow> FormData" where
  "form c a s = [(''customerId'', Text c), (''amount'', Text a), (''status'', Text s)]"

text \<open>A form with no customer selected, an amount that is no number and an unknown status.\<close>

definition form_without_customer :: FormData where
  "form_without_customer = [(''amount'', Text ''abc''), (''status'', Text ''overdue'')]"

text \<open>A sign-in procedure that throws the given error.\<close>

definition env_signIn_throws :: "js_error \<Rightarrow> env" where
  "env_signIn_throws e = env_ok\<lparr>signIn_throws := (\<lambda>provider formData. Some e)\<rparr>"

text \<open>
  A finite Number is an integer when its magnitude is one (\<open>Number.isInteger\<close>); the
  magnitude of a Number is never negative.
\<close>

definition isInteger :: "number \<Rightarrow> bool" where
  "isInteger n = (case n of Finite s x \<Rightarrow> x = of_int \<lfloor>x\<rfloor> | _ \<Rightarrow> False)"

definition magnitude_ok :: "number \<Rightarrow> bool" where
  "magnitude_ok n = (case n of Finite s x \<Rightarrow> 0 \<le> x | _ \<Rightarrow> True)"

section \<open>Validation\<close>

lemma isl_z_string: "isl (z_string m k v) \<longleftrightarrow> \<not> is_Text v"
  by (cases v) (simp_all add: z_string_def is_Text_def)

lemma projr_z_string: "z_string m k (Text s) = Inr s"
  by (simp add: z_string_def)

lemma issues_of_z_string:
  "issues_of (z_string m k v) = (if is_Text v then [] else [ZodIssue ''invalid_type'' k m])"
  by (cases v) (simp_all add: z_string_def is_Text_def issues_of_def)

lemma isl_z_coerce_number: "isl (z_coerce_number k v) \<longleftrightarrow> Number v = NaN"
  by (cases "Number v") (simp_all add: z_coerce_number_def)

lemma projr_z_coerce_number: "Number v \<noteq> NaN \<Longrightarrow> z_coerce_number k v = Inr (Number v)"
  by (cases "Number v") (simp_all add: z_coerce_number_def)

lemma issues_of_z_coerce_number:
  "issues_of (z_coerce_number k v) =
     (if Number v = NaN then [ZodIssue ''invalid_type'' k ''Expected number, received nan''] else [])"
  by (cases "Number v") (simp_all add: z_coerce_number_def issues_of_def)

lemma isl_z_enum: "isl (z_enum vs m k v) \<longleftrightarrow> v \<notin> Text ` set vs"
  by (cases v) (auto simp add: z_enum_def)

lemma projr_z_enum: "s \<in> set vs \<Longrightarrow> z_enum vs m k (Text s) = Inr s"
  by (simp add: z_enum_def)

lemma issues_of_z_enum:
  "v \<notin> Text ` set vs \<Longrightarrow> \<exists>c msg. issues_of (z_enum vs m k v) = [ZodIssue c k msg]"
  by (cases v) (auto simp add: z_enum_def issues_of_def)

lemma issues_of_z_enum_valid: "v \<in> Text ` set vs \<Longrightarrow> issues_of (z_enum vs m k v) = []"
  by (cases v) (auto simp add: z_enum_def issues_of_def)

lemma issues_of_Inr: "issues_of (Inr x) = []"
  by (simp add: issues_of_def)

lemma safeParse_valid:
  assumes "valid_form c a s"
  shows "\<exists>cv sv. c = Text cv \<and> s = Text sv \<and>
           safeParse c a s = Inr \<lparr>customerId = cv, amount = Number a, status = sv\<rparr>"
proof -
  from assms obtain cv where c: "c = Text cv"
    by (cases c) (simp_all add: valid_form_def is_Text_def)
  from assms have a: "Number a \<noteq> NaN"
    by (simp add: valid_form_def)
  from assms obtain sv where s: "s = Text sv" "sv \<in> set [''pending'', ''paid'']"
    by (auto simp add: valid_form_def)
  have "safeParse c a s = Inr \<lparr>customerId = cv, amount = Number a, status = sv\<rparr>"
    unfolding safeParse_def c s(1)
    by (simp only: projr_z_string projr_z_coerce_number [OF a] projr_z_enum [OF s(2)] Let_def
        prod.case sum.case)
  with c s show ?thesis by blast
qed

lemma safeParse_invalid:
  assumes "\<not> valid_form c a s"
  shows "safeParse c a s =
           Inl (issues_of (z_string ''Please select a customer'' ''customerId'' c) @
                issues_of (z_coerce_number ''amount'' a) @
                issues_of (z_enum [''pending'', ''paid''] ''Please select invoice status''
                             ''status'' s))"
proof -
  have "isl (z_string ''Please select a customer'' ''customerId'' c) \<or>
        isl (z_coerce_number ''amount'' a) \<or>
        isl (z_enum [''pending'', ''paid''] ''Please select invoice status'' ''status'' s)"
    using assms by (auto simp add: valid_form_def isl_z_string isl_z_coerce_number isl_z_enum)
  then show ?thesis
    unfolding safeParse_def Let_def
    by (cases "z_string ''Please select a customer'' ''customerId'' c";
        cases "z_coerce_number ''amount'' a";
        cases "z_enum [''pending'', ''paid''] ''Please select invoice status'' ''status'' s")
       simp_all
qed


subsection \<open>The formatted error object\<close>

lemma map_of_push_error:
  "map_of (push_error k m acc) k' =
     (if k' = k then Some ((case map_of acc k of None \<Rightarrow> [] | Some ms \<Rightarrow> ms) @ [m])
      else map_of acc k')"
  by (induction acc) auto

lemma map_of_foldl_push_error:
  "map_of (foldl (\<lambda>acc i. push_error (issue_path i) (issue_message i) acc) acc issues) k =
     (case map_of acc k of
        None \<Rightarrow> (if \<exists>i \<in> set issues. issue_path i = k
                 then Some (map issue_message (filter (\<lambda>i. issue_path i = k) issues)) else None)
      | Some ms \<Rightarrow> Some (ms @ map issue_message (filter (\<lambda>i. issue_path i = k) issues)))"
proof (induction issues arbitrary: acc)
  case Nil
  show ?case by (simp split: option.split)
next
  case (Cons i issues)
  show ?case
    by (simp add: Cons.IH map_of_push_error filter_empty_conv split: option.split)
qed

lemma map_of_fieldErrors:
  "map_of (fieldErrors issues) k =
     (if \<exists>i \<in> set issues. issue_path i = k
      then Some (map issue_message (filter (\<lambda>i. issue_path i = k) issues)) else None)"
  by (simp add: fieldErrors_def map_of_foldl_push_error)

lemma error_list_format:
  assumes "k \<noteq> ''_errors''"
  shows "error_list (format issues) k =
           map JString (map issue_message (filter (\<lambda>i. issue_path i = k) issues))"
proof -
  have "map_of (map (\<lambda>(k, ms). (k, JObject [(''_errors'', JArray (map JString ms))]))
                 (fieldErrors issues)) k =
        map_option (\<lambda>ms. JObject [(''_errors'', JArray (map JString ms))])
          (map_of (fieldErrors issues) k)"
    by (simp add: map_of_map)
  then show ?thesis
    using assms
    by (auto simp add: error_list_def format_def map_of_fieldErrors filter_empty_conv)
qed

section \<open>What each action does\<close>

lemma parse_form_valid:
  assumes "parse_form formData = Inr data"
  shows "FormData_get formData ''customerId'' = Text (customerId data)"
    and "amount data = Number (FormData_get formData ''amount'')"
    and "amount data \<noteq> NaN"
    and "FormData_get formData ''status'' = Text (status data)"
    and "status data \<in> {''pending'', ''paid''}"
proof -
  let ?c = "FormData_get formData ''customerId''"
  let ?a = "FormData_get formData ''amount''"
  let ?s = "FormData_get formData ''status''"
  have v: "valid_form ?c ?a ?s"
  proof (rule ccontr)
    assume "\<not> valid_form ?c ?a ?s"
    from safeParse_invalid [OF this] assms show False
      by (simp add: parse_form_def)
  qed
  from safeParse_valid [OF v] assms
  have d: "?c = Text (customerId data) \<and> ?s = Text (status data) \<and> amount data = Number ?a"
    by (auto simp add: parse_form_def)
  from d show "?c = Text (customerId data)" by simp
  from d show "amount data = Number ?a" by simp
  from d v show "amount data \<noteq> NaN" by (simp add: valid_form_def)
  from d show "?s = Text (status data)" by simp
  from d v show "status data \<in> {''pending'', ''paid''}" by (auto simp add: valid_form_def)
qed

lemma parse_form_cases:
  obtains (invalid) issues where "parse_form formData = Inl issues"
      and "\<not> valid_form (FormData_get formData ''customerId'') (FormData_get formData ''amount'')
              (FormData_get formData ''status'')"
    | (valid) data where "parse_form formData = Inr data"
      and "valid_form (FormData_get formData ''customerId'') (FormData_get formData ''amount'')
              (FormData_get formData ''status'')"
proof (cases "valid_form (FormData_get formData ''customerId'') (FormData_get formData ''amount'')
              (FormData_get formData ''status'')")
  case True
  from safeParse_valid [OF True] obtain data where "parse_form formData = Inr data"
    by (auto simp add: parse_form_def)
  with True show ?thesis by (rule valid [rotated])
next
  case False
  from safeParse_invalid [OF False] obtain issues where "parse_form formData = Inl issues"
    by (auto simp add: parse_form_def)
  with False show ?thesis by (rule invalid [rotated])
qed

lemma createInvoice_invalid:
  assumes "parse_form formData = Inl issues"
  shows "createInvoice env prevState formData w =
           (Returned (JObject [(''errors'', format issues),
                               (''message'', JString ''Validation failed'')]), w)"
  using assms by (simp add: createInvoice_def parse_form_def call_def return_def)

lemma createInvoice_throws:
  assumes "parse_form formData = Inr data"
    and "sql_throws env (the_INSERT env data) (invoices w) = Some e"
  shows "createInvoice env prevState formData w =
           (Returned (JObject [(''message'', JString ''Database Error: failed to create invoice'')]),
            w\<lparr>trace := trace w @ [Sql (the_INSERT env data)]\<rparr>)"
  using assms
  by (simp add: createInvoice_def parse_form_def the_INSERT_def call_def return_def seq_def
      try_catch_def sql_def emit_def Let_def)

lemma createInvoice_succeeds:
  assumes "parse_form formData = Inr data"
    and "sql_throws env (the_INSERT env data) (invoices w) = None"
  shows "createInvoice env prevState formData w =
           (Thrown (NEXT_REDIRECT ''/dashboard/invoices''),
            w\<lparr>invoices :=
                 run_statement (new_row_id env (invoices w)) (the_INSERT env data) (invoices w),
              trace := trace w @ [Sql (the_INSERT env data), RevalidatePath ''/dashboard/invoices'',
                                  Redirect ''/dashboard/invoices'']\<rparr>)"
  using assms
  by (simp add: createInvoice_def parse_form_def the_INSERT_def call_def return_def seq_def
      try_catch_def sql_def emit_def revalidatePath_def redirect_def Let_def)

lemma updateInvoice_invalid:
  assumes "parse_form formData = Inl issues"
  shows "updateInvoice env invoice_id prevState formData w =
           (Returned (JObject [(''errors'', format issues),
                               (''message'', JString ''Validation failed'')]), w)"
  using assms by (simp add: updateInvoice_def parse_form_def call_def return_def)

lemma updateInvoice_throws:
  assumes "parse_form formData = Inr data"
    and "sql_throws env (the_UPDATE invoice_id data) (invoices w) = Some e"
  shows "updateInvoice env invoice_id prevState formData w =
           (Returned (JObject [(''message'', JString ''Database error: failed to update invoice'')]),
            w\<lparr>trace := trace w @ [Sql (the_UPDATE invoice_id data)]\<rparr>)"
  using assms
  by (simp add: updateInvoice_def parse_form_def the_UPDATE_def call_def return_def seq_def
      try_catch_def sql_def emit_def Let_def)

lemma updateInvoice_succeeds:
  assumes "parse_form formData = Inr data"
    and "sql_throws env (the_UPDATE invoice_id data) (invoices w) = None"
  shows "updateInvoice env invoice_id prevState formData w =
           (Thrown (NEXT_REDIRECT ''/dashboard/invoices''),
            w\<lparr>invoices :=
                 run_statement (new_row_id env (invoices w)) (the_UPDATE invoice_id data) (invoices w),
              trace := trace w @ [Sql (the_UPDATE invoice_id data),
                                  RevalidatePath ''/dashboard/invoices'',
                                  Redirect ''/dashboard/invoices'']\<rparr>)"
  using assms
  by (simp add: updateInvoice_def parse_form_def the_UPDATE_def call_def return_def seq_def
      try_catch_def sql_def emit_def revalidatePath_def redirect_def Let_def)

lemma deleteInvoice_throws:
  assumes "sql_throws env (DELETE invoice_id) (invoices w) = Some e"
  shows "deleteInvoice env invoice_id w =
           (Returned (JObject [(''message'', JString ''Database error: failed to delete invoice'')]),
            w\<lparr>trace := trace w @ [Sql (DELETE invoice_id)]\<rparr>)"
  using assms
  by (simp add: deleteInvoice_def call_def return_def seq_def try_catch_def sql_def emit_def)

lemma deleteInvoice_succeeds:
  assumes "sql_throws env (DELETE invoice_id) (invoices w) = None"
  shows "deleteInvoice env invoice_id w =
           (Returned JUndefined,
            w\<lparr>invoices := filter (\<lambda>r. row_id r \<noteq> invoice_id) (invoices w),
              trace := trace w @ [Sql (DELETE invoice_id), RevalidatePath ''/dashboard/invoices'']\<rparr>)"
  using assms
  by (simp add: deleteInvoice_def call_def return_def seq_def try_catch_def sql_def emit_def
      revalidatePath_def)

lemma statements_append: "statements (xs @ ys) = statements xs @ statements ys"
  by (induction xs rule: statements.induct) simp_all

lemma new_events_append: "trace w' = trace w @ es \<Longrightarrow> new_events w w' = es"
  by (simp add: new_events_def)

section \<open>The table after an UPDATE or a DELETE\<close>

lemma run_UPDATE_ids: "map row_id (run_statement n (UPDATE c a s i) rows) = map row_id rows"
  by (induction rows) simp_all

lemma run_UPDATE_dates: "map row_date (run_statement n (UPDATE c a s i) rows) = map row_date rows"
  by (induction rows) simp_all

lemma run_UPDATE_nth:
  assumes "k < length rows"
  shows "run_statement n (UPDATE c a s i) rows ! k =
           (if row_id (rows ! k) = i then Row i c a s (row_date (rows ! k)) else rows ! k)"
  using assms by simp

lemma run_UPDATE_no_match:
  assumes "i \<notin> row_id ` set rows"
  shows "run_statement n (UPDATE c a s i) rows = rows"
  using assms by (induction rows) auto

lemma run_DELETE_no_match:
  assumes "i \<notin> row_id ` set rows"
  shows "run_statement n (DELETE i) rows = rows"
  using assms by (induction rows) auto

section \<open>Concrete evaluations\<close>

declare times_number.simps [simp del] Math_round.simps [simp del]

lemma StringToNumber_12_34:
  "StringToNumber ''12.34'' = Finite False (3473401212609495 / 281474976710656)"
  by code_simp

lemma times_12_34:
  "times_number (Finite False (3473401212609495 / 281474976710656)) (Finite False 100) =
     Finite False 1234"
  by code_simp

lemma StringToNumber_0_125: "StringToNumber ''0.125'' = Finite False (1 / 8)"
  by code_simp

lemma times_0_125: "times_number (Finite False (1 / 8)) (Finite False 100) = Finite False (25 / 2)"
  by code_simp

lemma Math_round_12_5: "Math_round (Finite False (25 / 2)) = Finite False 13"
  by code_simp

lemma StringToNumber_1_1:
  "StringToNumber ''1.1'' = Finite False (2476979795053773 / 2251799813685248)"
  by code_simp

lemma times_1_1:
  "times_number (Finite False (2476979795053773 / 2251799813685248)) (Finite False 100) =
     Finite False (7740561859543041 / 70368744177664)"
  by code_simp

lemma Math_round_110:
  "Math_round (Finite False (7740561859543041 / 70368744177664)) = Finite False 110"
  by code_simp

lemma StringToNumber_empty: "StringToNumber [] = Finite False 0"
  by code_simp

lemma StringToNumber_50: "StringToNumber ''50'' = Finite False 50"
  by code_simp

lemma times_50: "times_number (Finite False 50) (Finite False 100) = Finite False 5000"
  by code_simp

lemma StringToNumber_abc: "StringToNumber ''abc'' = NaN"
  by code_simp

lemma FormData_get_form:
  "FormData_get (form c a s) ''customerId'' = Text c"
  "FormData_get (form c a s) ''amount'' = Text a"
  "FormData_get (form c a s) ''status'' = Text s"
  by (simp_all add: FormData_get_def form_def)

lemma parse_form_form:
  assumes "StringToNumber a = n" and "n \<noteq> NaN" and "s \<in> {''pending'', ''paid''}"
  shows "parse_form (form c a s) = Inr \<lparr>customerId = c, amount = n, status = s\<rparr>"
proof -
  have "valid_form (Text c) (Text a) (Text s)"
    using assms by (auto simp add: valid_form_def is_Text_def)
  from safeParse_valid [OF this] show ?thesis
    using assms by (simp add: parse_form_def FormData_get_form)
qed

lemma split_T_0_ok: "split_T_0 (toISOString env_ok) = ''2024-03-05''"
  by (simp add: split_T_0_def env_ok_def)

lemma split_T_0_down: "split_T_0 (toISOString env_down) = ''2024-03-05''"
  by (simp add: split_T_0_def env_down_def)

section \<open>Rounding to an integer\<close>

lemma pow2_pos: "0 < pow2 e"
  by (simp add: pow2_def)

lemma round_half_even_nonneg: "0 \<le> q \<Longrightarrow> 0 \<le> round_half_even q"
  by (simp add: round_half_even_def Let_def)

lemma round_binary64_nonneg:
  assumes "0 \<le> x" and "round_binary64 x = Some y"
  shows "0 \<le> y"
proof (cases "x = 0")
  case True
  with assms show ?thesis by (simp add: round_binary64_def)
next
  case False
  have u: "0 < ulp x" by (simp add: ulp_def pow2_pos)
  with assms have "0 \<le> x / ulp x" by simp
  then have "0 \<le> round_half_even (x / ulp x)" by (rule round_half_even_nonneg)
  then have "0 \<le> (of_int (round_half_even (x / ulp x)) :: rat) * ulp x"
    using u by simp
  with assms False show ?thesis
    by (auto simp add: round_binary64_def Let_def split: if_splits)
qed

lemma magnitude_ok_to_number: "0 \<le> x \<Longrightarrow> magnitude_ok (to_number neg x)"
  by (auto simp add: to_number_def magnitude_ok_def split: option.splits
      dest: round_binary64_nonneg)

lemma magnitude_ok_times:
  assumes "magnitude_ok a" and "magnitude_ok b"
  shows "magnitude_ok (times_number a b)"
proof (cases a; cases b)
  fix s x t y
  assume a: "a = Finite s x" and b: "b = Finite t y"
  with assms have "0 \<le> x * y"
    by (simp add: magnitude_ok_def)
  then have "magnitude_ok (to_number (s \<noteq> t) (x * y))"
    by (rule magnitude_ok_to_number)
  then show ?thesis
    by (simp only: a b times_number.simps)
qed (simp_all add: times_number.simps magnitude_ok_def)

lemma digits_value_nonneg: "0 \<le> digits_value b ds"
proof -
  have "0 \<le> a \<Longrightarrow>
        0 \<le> foldl (\<lambda>a c. a * int b + int (case digit_value c of None \<Rightarrow> 0 | Some d \<Rightarrow> d)) a ds"
    for a
    by (induction ds arbitrary: a) simp_all
  then show ?thesis by (simp add: digits_value_def)
qed

lemma StrUnsignedDecimalLiteral_nonneg:
  assumes "StrUnsignedDecimalLiteral s = Some mv"
  shows "0 \<le> mv"
proof -
  have 1: "0 \<le> (of_int (digits_value 10 ds) :: rat) * 10 ^ m" for ds m
    using digits_value_nonneg [of 10 ds] by simp
  have 2: "0 \<le> (of_int (digits_value 10 ds) :: rat) / 10 ^ m" for ds m
    using digits_value_nonneg [of 10 ds] by simp
  from assms show ?thesis
    by (auto simp add: StrUnsignedDecimalLiteral_def Let_def 1 2 split: if_splits option.splits)
qed

lemma magnitude_ok_StrDecimalLiteral: "magnitude_ok (StrDecimalLiteral neg s)"
  by (auto simp add: StrDecimalLiteral_def magnitude_ok_to_number
      StrUnsignedDecimalLiteral_nonneg split: option.splits)
     (simp_all add: magnitude_ok_def)

lemma Digits_nonneg: "Digits b s = Some n \<Longrightarrow> 0 \<le> n"
  using digits_value_nonneg [of b s] by (auto simp add: Digits_def split: if_splits)

lemma NonDecimalIntegerLiteral_nonneg: "NonDecimalIntegerLiteral s = Some n \<Longrightarrow> 0 \<le> n"
  by (auto simp add: NonDecimalIntegerLiteral_def split: list.splits if_splits dest: Digits_nonneg)

lemma magnitude_ok_StringToNumber: "magnitude_ok (StringToNumber str)"
proof (cases "trim str = []")
  case True
  then show ?thesis by (simp add: StringToNumber_def magnitude_ok_def)
next
  case False
  show ?thesis
  proof (cases "NonDecimalIntegerLiteral (trim str)")
    case (Some n)
    from NonDecimalIntegerLiteral_nonneg [OF this] have "0 \<le> (of_int n :: rat)" by simp
    with False Some show ?thesis
      by (simp add: StringToNumber_def magnitude_ok_to_number)
  next
    case None
    with False show ?thesis
      by (cases "trim str")
         (simp_all add: StringToNumber_def magnitude_ok_StrDecimalLiteral)
  qed
qed

lemma magnitude_ok_Number: "magnitude_ok (Number v)"
  by (cases v) (simp_all add: magnitude_ok_StringToNumber, simp_all add: magnitude_ok_def)

text \<open>\<open>Math.round\<close> leaves a Number as it is exactly when it is an integer or not finite.\<close>

lemma Math_round_fixed:
  assumes "magnitude_ok n"
  shows "Math_round n = n \<longleftrightarrow> isInteger n \<or> (\<forall>s x. n \<noteq> Finite s x)"
proof (cases n)
  case NaN
  then show ?thesis by (simp add: Math_round.simps)
next
  case (Infinity s)
  then show ?thesis by (simp add: Math_round.simps)
next
  case (Finite s x)
  with assms have x: "0 \<le> x" by (simp add: magnitude_ok_def)
  let ?v = "if s then - x else x"
  let ?n = "\<lfloor>?v + 1 / 2\<rfloor>"
  show ?thesis
  proof (cases "x = of_int \<lfloor>x\<rfloor>")
    case True
    then obtain k :: int where k: "x = of_int k" "0 \<le> k"
      using x by (metis of_int_0_le_iff)
    have fl: "\<lfloor>(of_int j :: rat) + 1 / 2\<rfloor> = j" for j :: int
      by (rule floor_unique) simp_all
    have half: "\<lfloor>1 / 2 :: rat\<rfloor> = 0"
      using fl [of 0] by simp
    show ?thesis
    proof (cases "k = 0")
      case True
      then show ?thesis
        unfolding Finite by (simp add: Math_round.simps isInteger_def k(1) Let_def half)
    next
      case False
      with k have "0 < k" by simp
      then show ?thesis
        unfolding Finite
        by (simp add: Math_round.simps isInteger_def Let_def k(1) half)
    qed
  next
    case False
    have "Math_round (Finite s x) \<noteq> Finite s x"
    proof
      assume "Math_round (Finite s x) = Finite s x"
      then have "x = 0 \<or> x = of_int \<bar>?n\<bar>"
        by (simp add: Math_round.simps Let_def split: if_splits)
      with False show False by (metis floor_of_int floor_zero of_int_0)
    qed
    with False show ?thesis
      unfolding Finite by (simp add: isInteger_def)
  qed
qed

lemma times_100_not_NaN:
  assumes "a \<noteq> NaN"
  shows "times_number a (Finite False 100) \<noteq> NaN"
proof (cases a)
  case NaN
  with assms show ?thesis by simp
next
  case (Infinity s)
  then show ?thesis by (simp add: times_number.simps)
next
  case (Finite s x)
  then show ?thesis
    by (simp add: times_number.simps to_number_def split: option.split)
qed


section \<open>The rounding is to a nearest double\<close>

lemma bit_length_nonneg: "0 \<le> bit_length n"
proof (induction n rule: bit_length.induct)
  case (1 n)
  then show ?case by (subst bit_length.simps) simp
qed

lemma bit_length_pos: "0 < n \<Longrightarrow> 0 < bit_length n"
  using bit_length_nonneg [of "n div 2"] by (subst bit_length.simps) simp

lemma bit_length_bounds:
  "0 < n \<Longrightarrow> 2 ^ nat (bit_length n - 1) \<le> n \<and> n < 2 ^ nat (bit_length n)"
proof (induction n rule: bit_length.induct)
  case (1 n)
  show ?case
  proof (cases "n = 1")
    case True
    then show ?thesis
      by (simp add: bit_length.simps [of 1] bit_length.simps [of 0])
  next
    case False
    let ?k = "nat (bit_length (n div 2) - 1)"
    from False "1.prems" have h: "0 < n div 2" by simp
    with "1.IH" "1.prems" have ih: "2 ^ ?k \<le> n div 2" "n div 2 < 2 ^ nat (bit_length (n div 2))"
      by simp_all
    have b: "bit_length n = 1 + bit_length (n div 2)"
      using "1.prems" by (subst bit_length.simps) simp
    from bit_length_pos [OF h] have p: "nat (bit_length (n div 2)) = Suc ?k"
      by simp
    have "(2::int) * 2 ^ ?k \<le> 2 * (n div 2)"
      using ih(1) by simp
    also have "\<dots> \<le> n" by simp
    finally have lo: "2 ^ nat (bit_length n - 1) \<le> n"
      by (simp add: b p)
    have "n div 2 + 1 \<le> 2 ^ Suc ?k"
      using ih(2) by (simp add: p)
    then have "2 * (n div 2) + 2 \<le> 2 * 2 ^ Suc ?k"
      by simp
    moreover have "n < 2 * (n div 2) + 2" by simp
    ultimately have "n < 2 * 2 ^ Suc ?k" by simp
    moreover have "nat (bit_length n) = Suc (Suc ?k)"
      using bit_length_pos [OF h] by (simp add: b)
    ultimately have hi: "n < 2 ^ nat (bit_length n)"
      by simp
    from lo hi show ?thesis by blast
  qed
qed

text \<open>\<open>floor_log2\<close> is the binary exponent of its argument.\<close>

lemma floor_log2_bounds:
  assumes "0 < x"
  shows "pow2 (floor_log2 x) \<le> x" and "x < pow2 (floor_log2 x + 1)"
proof -
  have "pow2 (floor_log2 x) \<le> x \<and> x < pow2 (floor_log2 x + 1)"
  proof (cases "1 \<le> x")
    case True
    let ?n = "\<lfloor>x\<rfloor>"
    let ?b = "bit_length ?n"
    from True have n: "0 < ?n" by simp
    from bit_length_bounds [OF n] have lo: "2 ^ nat (?b - 1) \<le> ?n" and hi: "?n < 2 ^ nat ?b"
      by simp_all
    have b: "0 < ?b" by (rule bit_length_pos [OF n])
    have "(of_int (2 ^ nat (?b - 1)) :: rat) \<le> of_int ?n"
      using lo by (simp only: of_int_le_iff)
    also have "\<dots> \<le> x" by simp
    finally have 1: "pow2 (?b - 1) \<le> x"
      using b by (simp add: pow2_def)
    from hi have "?n + 1 \<le> 2 ^ nat ?b" by simp
    then have "(of_int (?n + 1) :: rat) \<le> of_int (2 ^ nat ?b)"
      by (simp only: of_int_le_iff)
    moreover have "x < of_int (?n + 1)" by simp linarith
    ultimately have 2: "x < pow2 ?b"
      using b by (simp add: pow2_def)
    from 1 2 True show ?thesis
      by (simp add: floor_log2_def)
  next
    case False
    let ?y = "1 / x"
    let ?m = "\<lceil>?y\<rceil> - 1"
    let ?b = "bit_length ?m"
    from False assms have y: "1 < ?y" by simp
    then have m: "0 < ?m" by simp
    from bit_length_bounds [OF m] have lo: "2 ^ nat (?b - 1) \<le> ?m" and hi: "?m < 2 ^ nat ?b"
      by simp_all
    have b: "0 < ?b" by (rule bit_length_pos [OF m])
    from hi have "\<lceil>?y\<rceil> \<le> 2 ^ nat ?b" by simp
    then have c: "(of_int \<lceil>?y\<rceil> :: rat) \<le> of_int (2 ^ nat ?b)"
      by (simp only: of_int_le_iff)
    have "?y \<le> of_int \<lceil>?y\<rceil>" by (rule le_of_int_ceiling)
    also note c
    finally have "?y \<le> 2 ^ nat ?b" by simp
    then have "1 / 2 ^ nat ?b \<le> x"
      using assms by (simp add: field_simps)
    then have 1: "pow2 (- ?b) \<le> x"
      using b by (simp add: pow2_def)
    have "(of_int (2 ^ nat (?b - 1)) :: rat) \<le> of_int ?m"
      using lo by (simp only: of_int_le_iff)
    also have "of_int ?m < ?y"
      by linarith
    finally have "2 ^ nat (?b - 1) < ?y" by simp
    then have "x < 1 / 2 ^ nat (?b - 1)"
      using assms by (simp add: field_simps)
    moreover have "pow2 (- ?b + 1) = 1 / 2 ^ nat (?b - 1)"
      using b by (cases "?b = 1") (simp_all add: pow2_def)
    ultimately have 2: "x < pow2 (- ?b + 1)" by simp
    from 1 2 False show ?thesis
      by (simp add: floor_log2_def)
  qed
  then show "pow2 (floor_log2 x) \<le> x" and "x < pow2 (floor_log2 x + 1)" by simp_all
qed

text \<open>
  The rounded magnitude is a multiple of the spacing and at most half a spacing away.
\<close>

lemma round_half_even_error: "\<bar>of_int (round_half_even q) - q\<bar> \<le> 1 / 2"
proof -
  have "of_int \<lfloor>q\<rfloor> \<le> q" "q < of_int \<lfloor>q\<rfloor> + 1" by linarith+
  then show ?thesis
    by (simp add: round_half_even_def Let_def)
qed

lemma round_binary64_nearest:
  assumes "0 < x" and "round_binary64 x = Some y"
  shows "\<bar>y - x\<bar> \<le> ulp x / 2" and "\<exists>n. y = of_int n * ulp x"
proof -
  let ?a = "of_int (round_half_even (x / ulp x)) :: rat"
  have u: "0 < ulp x" by (simp add: ulp_def pow2_pos)
  from assms have y: "y = ?a * ulp x"
    by (auto simp add: round_binary64_def Let_def split: if_splits)
  then show "\<exists>n. y = of_int n * ulp x" by blast
  have "y - x = (?a - x / ulp x) * ulp x"
    using u by (simp add: y left_diff_distrib)
  then have "\<bar>y - x\<bar> = \<bar>?a - x / ulp x\<bar> * ulp x"
    using u by (simp add: abs_mult)
  also have "\<dots> \<le> 1 / 2 * ulp x"
    using round_half_even_error [of "x / ulp x"] u by (simp only: mult_right_mono less_imp_le)
  finally show "\<bar>y - x\<bar> \<le> ulp x / 2" by simp
qed

section \<open>The claims\<close>

text \<open>
  C1, counterexample: the form amount \<open>0.125\<close> passes validation and both actions send
  the amount \<open>12.5\<close>, where \<open>round(amount \<times> 100)\<close> is \<open>13\<close>. An amount with two
  decimals can miss as well: for \<open>1.1\<close> the product is the double next above \<open>110\<close>.
\<close>

theorem C1_counterexample:
  "parse_form (form ''c1'' ''0.125'' ''pending'') =
     Inr \<lparr>customerId = ''c1'', amount = Finite False (1 / 8), status = ''pending''\<rparr> \<and>
   statements (trace (snd (createInvoice env_ok JUndefined (form ''c1'' ''0.125'' ''pending'')
                             world_1))) =
     [INSERT ''c1'' (Finite False (25 / 2)) ''pending'' ''2024-03-05''] \<and>
   statements (trace (snd (updateInvoice env_ok ''i1'' JUndefined (form ''c1'' ''0.125'' ''pending'')
                             world_1))) =
     [UPDATE ''c1'' (Finite False (25 / 2)) ''pending'' ''i1''] \<and>
   spec_amountInCents (Finite False (1 / 8)) = Finite False 13 \<and>
   times_number (Number (Text ''1.1'')) (Finite False 100) =
     Finite False (7740561859543041 / 70368744177664) \<and>
   spec_amountInCents (Number (Text ''1.1'')) = Finite False 110"
proof -
  let ?data = "\<lparr>customerId = ''c1'', amount = Finite False (1 / 8), status = ''pending''\<rparr>"
  have p: "parse_form (form ''c1'' ''0.125'' ''pending'') = Inr ?data"
    by (rule parse_form_form) (simp_all add: StringToNumber_0_125)
  have i: "the_INSERT env_ok ?data = INSERT ''c1'' (Finite False (25 / 2)) ''pending'' ''2024-03-05''"
    by (simp add: the_INSERT_def times_0_125 split_T_0_ok)
  have u: "the_UPDATE ''i1'' ?data = UPDATE ''c1'' (Finite False (25 / 2)) ''pending'' ''i1''"
    by (simp add: the_UPDATE_def times_0_125)
  have ok: "sql_throws env_ok q rows = None" for q rows
    by (simp add: env_ok_def)
  have c: "statements (trace (snd (createInvoice env_ok JUndefined (form ''c1'' ''0.125'' ''pending'')
                             world_1))) =
     [INSERT ''c1'' (Finite False (25 / 2)) ''pending'' ''2024-03-05'']"
    by (simp add: createInvoice_succeeds [OF p ok] i world_1_def)
  have d: "statements (trace (snd (updateInvoice env_ok ''i1'' JUndefined
             (form ''c1'' ''0.125'' ''pending'') world_1))) =
     [UPDATE ''c1'' (Finite False (25 / 2)) ''pending'' ''i1'']"
    by (simp add: updateInvoice_succeeds [OF p ok] u world_1_def)
  have r: "spec_amountInCents (Finite False (1 / 8)) = Finite False 13"
    by (simp add: spec_amountInCents_def times_0_125 Math_round_12_5)
  have t: "times_number (Number (Text ''1.1'')) (Finite False 100) =
     Finite False (7740561859543041 / 70368744177664)"
    by (simp add: StringToNumber_1_1 times_1_1)
  have q: "spec_amountInCents (Number (Text ''1.1'')) = Finite False 110"
    by (simp add: spec_amountInCents_def StringToNumber_1_1 times_1_1 Math_round_110)
  from p c d r t q show ?thesis by blast
qed

text \<open>
  C1, as amended: for every input that passes validation, the amount is the number the
  form's amount field coerces to, and the one statement \<open>createInvoice\<close> and
  \<open>updateInvoice\<close> send carries \<open>amountInCents = amount * 100\<close>, the double product,
  not rounded to an integer. That value is \<open>round(amount \<times> 100)\<close> exactly when the
  product is an integer (or infinite); for the input \<open>12.34\<close> it is \<open>1234\<close>.
\<close>

theorem C1_amount_times_100:
  assumes "parse_form formData = Inr data"
  shows "amount data = Number (FormData_get formData ''amount'') \<and>
         statements (new_events w (snd (createInvoice env prevState formData w))) =
           [INSERT (customerId data) (times_number (amount data) (Finite False 100)) (status data)
              (split_T_0 (toISOString env))] \<and>
         statements (new_events w (snd (updateInvoice env invoice_id prevState formData w))) =
           [UPDATE (customerId data) (times_number (amount data) (Finite False 100)) (status data)
              invoice_id] \<and>
         (times_number (amount data) (Finite False 100) = spec_amountInCents (amount data) \<longleftrightarrow>
            isInteger (times_number (amount data) (Finite False 100)) \<or>
            times_number (amount data) (Finite False 100) \<in> {Infinity False, Infinity True}) \<and>
         times_number (Number (Text ''12.34'')) (Finite False 100) = Finite False 1234"
proof -
  let ?p = "times_number (amount data) (Finite False 100)"
  have a: "amount data = Number (FormData_get formData ''amount'')"
    by (rule parse_form_valid(2) [OF assms])
  have c: "statements (new_events w (snd (createInvoice env prevState formData w))) =
             [the_INSERT env data]"
  proof (cases "sql_throws env (the_INSERT env data) (invoices w)")
    case None
    show ?thesis
      by (simp add: createInvoice_succeeds [OF assms None] new_events_def)
  next
    case (Some e)
    show ?thesis
      by (simp add: createInvoice_throws [OF assms Some] new_events_def)
  qed
  have u: "statements (new_events w (snd (updateInvoice env invoice_id prevState formData w))) =
             [the_UPDATE invoice_id data]"
  proof (cases "sql_throws env (the_UPDATE invoice_id data) (invoices w)")
    case None
    show ?thesis
      by (simp add: updateInvoice_succeeds [OF assms None] new_events_def)
  next
    case (Some e)
    show ?thesis
      by (simp add: updateInvoice_throws [OF assms Some] new_events_def)
  qed
  have "magnitude_ok (amount data)"
    unfolding a by (rule magnitude_ok_Number)
  moreover have "magnitude_ok (Finite False 100)"
    by (simp add: magnitude_ok_def)
  ultimately have "magnitude_ok ?p"
    by (rule magnitude_ok_times)
  from Math_round_fixed [OF this]
  have "Math_round ?p = ?p \<longleftrightarrow> isInteger ?p \<or> (\<forall>s x. ?p \<noteq> Finite s x)" .
  moreover have "?p \<noteq> NaN"
    by (rule times_100_not_NaN) (rule parse_form_valid(3) [OF assms])
  then have "(\<forall>s x. ?p \<noteq> Finite s x) \<longleftrightarrow> ?p \<in> {Infinity False, Infinity True}"
    by (cases ?p) auto
  ultimately have r: "?p = spec_amountInCents (amount data) \<longleftrightarrow>
      isInteger ?p \<or> ?p \<in> {Infinity False, Infinity True}"
    unfolding spec_amountInCents_def by metis
  have n: "times_number (Number (Text ''12.34'')) (Finite False 100) = Finite False 1234"
    by (simp add: StringToNumber_12_34 times_12_34)
  from a c u r n show ?thesis
    by (simp only: the_INSERT_def the_UPDATE_def)
qed

theorem C1_amount_times_100_witness:
  "parse_form (form ''c1'' ''12.34'' ''paid'') =
     Inr \<lparr>customerId = ''c1'', amount = Finite False (3473401212609495 / 281474976710656),
          status = ''paid''\<rparr> \<and>
   statements (new_events world_1
      (snd (createInvoice env_ok JUndefined (form ''c1'' ''12.34'' ''paid'') world_1))) =
     [INSERT ''c1'' (Finite False 1234) ''paid'' ''2024-03-05''] \<and>
   statements (new_events world_1
      (snd (updateInvoice env_ok ''i1'' JUndefined (form ''c1'' ''12.34'' ''paid'') world_1))) =
     [UPDATE ''c1'' (Finite False 1234) ''paid'' ''i1'']"
proof -
  let ?data = "\<lparr>customerId = ''c1'', amount = Finite False (3473401212609495 / 281474976710656),
                status = ''paid''\<rparr>"
  have p: "parse_form (form ''c1'' ''12.34'' ''paid'') = Inr ?data"
    by (rule parse_form_form) (simp_all add: StringToNumber_12_34)
  have "statements (new_events world_1
          (snd (createInvoice env_ok JUndefined (form ''c1'' ''12.34'' ''paid'') world_1))) =
          [INSERT ''c1'' (Finite False 1234) ''paid'' ''2024-03-05''] \<and>
        statements (new_events world_1
          (snd (updateInvoice env_ok ''i1'' JUndefined (form ''c1'' ''12.34'' ''paid'') world_1))) =
          [UPDATE ''c1'' (Finite False 1234) ''paid'' ''i1'']"
    using C1_amount_times_100 [OF p, of world_1 env_ok JUndefined "''i1''"]
    by (simp add: split_T_0_ok times_12_34)
  with p show ?thesis by blast
qed

text \<open>
  C2, counterexample: a customerId that is the empty string is not a valid customer
  identifier, yet the form passes validation: neither action returns a validation failure,
  and each sends its statement, with the empty customer id.
\<close>

theorem C2_counterexample:
  "FormData_get (form '''' ''12.34'' ''paid'') ''customerId'' = Text '''' \<and>
   createInvoice env_ok JUndefined (form '''' ''12.34'' ''paid'') world_1 =
     (Thrown (NEXT_REDIRECT ''/dashboard/invoices''),
      \<lparr>invoices = [Row ''i1'' ''c7'' (Finite False 100) ''paid'' ''2024-01-01'',
                   Row ''i2'' '''' (Finite False 1234) ''paid'' ''2024-03-05''],
       trace = [Sql (INSERT '''' (Finite False 1234) ''paid'' ''2024-03-05''),
                RevalidatePath ''/dashboard/invoices'', Redirect ''/dashboard/invoices'']\<rparr>) \<and>
   updateInvoice env_ok ''i1'' JUndefined (form '''' ''12.34'' ''paid'') world_1 =
     (Thrown (NEXT_REDIRECT ''/dashboard/invoices''),
      \<lparr>invoices = [Row ''i1'' '''' (Finite False 1234) ''paid'' ''2024-01-01''],
       trace = [Sql (UPDATE '''' (Finite False 1234) ''paid'' ''i1''),
                RevalidatePath ''/dashboard/invoices'', Redirect ''/dashboard/invoices'']\<rparr>)"
proof -
  let ?data = "\<lparr>customerId = '''', amount = Finite False (3473401212609495 / 281474976710656),
                status = ''paid''\<rparr>"
  have p: "parse_form (form '''' ''12.34'' ''paid'') = Inr ?data"
    by (rule parse_form_form) (simp_all add: StringToNumber_12_34)
  have i: "the_INSERT env_ok ?data = INSERT '''' (Finite False 1234) ''paid'' ''2024-03-05''"
    by (simp add: the_INSERT_def times_12_34 split_T_0_ok)
  have u: "the_UPDATE ''i1'' ?data = UPDATE '''' (Finite False 1234) ''paid'' ''i1''"
    by (simp add: the_UPDATE_def times_12_34)
  have ok: "sql_throws env_ok q rows = None" for q rows
    by (simp add: env_ok_def)
  have c: "createInvoice env_ok JUndefined (form '''' ''12.34'' ''paid'') world_1 =
     (Thrown (NEXT_REDIRECT ''/dashboard/invoices''),
      \<lparr>invoices = [Row ''i1'' ''c7'' (Finite False 100) ''paid'' ''2024-01-01'',
                   Row ''i2'' '''' (Finite False 1234) ''paid'' ''2024-03-05''],
       trace = [Sql (INSERT '''' (Finite False 1234) ''paid'' ''2024-03-05''),
                RevalidatePath ''/dashboard/invoices'', Redirect ''/dashboard/invoices'']\<rparr>)"
    unfolding createInvoice_succeeds [OF p ok] i
    by (simp add: world_1_def env_ok_def)
  have d: "updateInvoice env_ok ''i1'' JUndefined (form '''' ''12.34'' ''paid'') world_1 =
     (Thrown (NEXT_REDIRECT ''/dashboard/invoices''),
      \<lparr>invoices = [Row ''i1'' '''' (Finite False 1234) ''paid'' ''2024-01-01''],
       trace = [Sql (UPDATE '''' (Finite False 1234) ''paid'' ''i1''),
                RevalidatePath ''/dashboard/invoices'', Redirect ''/dashboard/invoices'']\<rparr>)"
    unfolding updateInvoice_succeeds [OF p ok] u
    by (simp add: world_1_def env_ok_def)
  from c d show ?thesis
    by (simp add: FormData_get_form)
qed

text \<open>
  C2, as amended: when the customerId is missing or not a string, or the amount does not
  coerce to a number, or the status is not \<open>pending\<close> or \<open>paid\<close>, \<open>createInvoice\<close>
  and \<open>updateInvoice\<close> return the validation failure, whose error object has a
  non-empty list of messages for each such field, and leave the world as it was: no
  statement is sent, no row is touched.
\<close>

theorem C2_validation_failure:
  assumes "FormData_get formData ''customerId'' \<in> {Null, File} \<or>
           Number (FormData_get formData ''amount'') = NaN \<or>
           FormData_get formData ''status'' \<notin> {Text ''pending'', Text ''paid''}"
  shows "\<exists>errors.
           createInvoice env prevState formData w =
             (Returned (JObject [(''errors'', errors), (''message'', JString ''Validation failed'')]),
              w) \<and>
           updateInvoice env invoice_id prevState formData w =
             (Returned (JObject [(''errors'', errors), (''message'', JString ''Validation failed'')]),
              w) \<and>
           (FormData_get formData ''customerId'' \<in> {Null, File} \<longrightarrow>
              error_list errors ''customerId'' \<noteq> []) \<and>
           (Number (FormData_get formData ''amount'') = NaN \<longrightarrow>
              error_list errors ''amount'' \<noteq> []) \<and>
           (FormData_get formData ''status'' \<notin> {Text ''pending'', Text ''paid''} \<longrightarrow>
              error_list errors ''status'' \<noteq> [])"
proof -
  let ?c = "FormData_get formData ''customerId''"
  let ?a = "FormData_get formData ''amount''"
  let ?s = "FormData_get formData ''status''"
  let ?ic = "issues_of (z_string ''Please select a customer'' ''customerId'' ?c)"
  let ?ia = "issues_of (z_coerce_number ''amount'' ?a)"
  let ?ist = "issues_of (z_enum [''pending'', ''paid''] ''Please select invoice status'' ''status'' ?s)"
  have not_text: "is_Text v \<longleftrightarrow> v \<notin> {Null, File}" for v
    by (cases v) (simp_all add: is_Text_def)
  from assms have "\<not> valid_form ?c ?a ?s"
    by (auto simp add: valid_form_def not_text)
  from safeParse_invalid [OF this]
  have p: "parse_form formData = Inl (?ic @ ?ia @ ?ist)"
    by (simp add: parse_form_def)
  have c: "error_list (format (?ic @ ?ia @ ?ist)) ''customerId'' \<noteq> []" if "?c \<in> {Null, File}"
    using that by (auto simp add: error_list_format issues_of_z_string not_text)
  have a: "error_list (format (?ic @ ?ia @ ?ist)) ''amount'' \<noteq> []" if "Number ?a = NaN"
    using that by (simp add: error_list_format issues_of_z_coerce_number)
  have s: "error_list (format (?ic @ ?ia @ ?ist)) ''status'' \<noteq> []"
    if "?s \<notin> {Text ''pending'', Text ''paid''}"
  proof -
    from that have "?s \<notin> Text ` set [''pending'', ''paid'']" by simp
    from issues_of_z_enum [OF this] obtain code msg
      where "?ist = [ZodIssue code ''status'' msg]" by blast
    then show ?thesis by (simp add: error_list_format)
  qed
  from createInvoice_invalid [OF p] updateInvoice_invalid [OF p] c a s
  show ?thesis by blast
qed

theorem C2_validation_failure_witness:
  "\<exists>errors.
     createInvoice env_ok JUndefined form_without_customer world_1 =
       (Returned (JObject [(''errors'', errors), (''message'', JString ''Validation failed'')]),
        world_1) \<and>
     updateInvoice env_ok ''i1'' JUndefined form_without_customer world_1 =
       (Returned (JObject [(''errors'', errors), (''message'', JString ''Validation failed'')]),
        world_1) \<and>
     error_list errors ''customerId'' \<noteq> [] \<and>
     error_list errors ''amount'' \<noteq> [] \<and>
     error_list errors ''status'' \<noteq> []"
proof -
  have c: "FormData_get form_without_customer ''customerId'' = Null"
    by (simp add: FormData_get_def form_without_customer_def)
  have a: "Number (FormData_get form_without_customer ''amount'') = NaN"
    by (simp add: FormData_get_def form_without_customer_def StringToNumber_abc)
  have s: "FormData_get form_without_customer ''status'' = Text ''overdue''"
    by (simp add: FormData_get_def form_without_customer_def)
  have h: "FormData_get form_without_customer ''customerId'' \<in> {Null, File} \<or>
           Number (FormData_get form_without_customer ''amount'') = NaN \<or>
           FormData_get form_without_customer ''status'' \<notin> {Text ''pending'', Text ''paid''}"
    by (simp add: c)
  from C2_validation_failure [OF h, of env_ok JUndefined world_1 "''i1''"]
  show ?thesis
    by (simp add: c a s)
qed

text \<open>
  The amount is coerced, so an empty amount field and a missing one are the number \<open>0\<close>
  and pass validation.
\<close>

lemma empty_amount_accepted:
  "parse_form (form ''c1'' [] ''paid'') =
     Inr \<lparr>customerId = ''c1'', amount = Finite False 0, status = ''paid''\<rparr>"
  by (rule parse_form_form) (simp_all add: StringToNumber_empty)

lemma missing_amount_accepted:
  "parse_form [(''customerId'', Text ''c1''), (''status'', Text ''paid'')] =
     Inr \<lparr>customerId = ''c1'', amount = Finite False 0, status = ''paid''\<rparr>"
proof -
  have "valid_form (Text ''c1'') Null (Text ''paid'')"
    by (simp add: valid_form_def is_Text_def)
  from safeParse_valid [OF this] show ?thesis
    by (simp add: parse_form_def FormData_get_def)
qed

text \<open>
  C3, counterexample: a form whose customerId is the empty string passes validation, and
  \<open>createInvoice\<close> inserts a row with the empty customer id.
\<close>

theorem C3_counterexample:
  "parse_form (form '''' ''50'' ''pending'') =
     Inr \<lparr>customerId = '''', amount = Finite False 50, status = ''pending''\<rparr> \<and>
   createInvoice env_ok JUndefined (form '''' ''50'' ''pending'') world_1 =
     (Thrown (NEXT_REDIRECT ''/dashboard/invoices''),
      \<lparr>invoices = [Row ''i1'' ''c7'' (Finite False 100) ''paid'' ''2024-01-01'',
                   Row ''i2'' '''' (Finite False 5000) ''pending'' ''2024-03-05''],
       trace = [Sql (INSERT '''' (Finite False 5000) ''pending'' ''2024-03-05''),
                RevalidatePath ''/dashboard/invoices'', Redirect ''/dashboard/invoices'']\<rparr>)"
proof -
  let ?data = "\<lparr>customerId = '''', amount = Finite False 50, status = ''pending''\<rparr>"
  have p: "parse_form (form '''' ''50'' ''pending'') = Inr ?data"
    by (rule parse_form_form) (simp_all add: StringToNumber_50)
  have i: "the_INSERT env_ok ?data = INSERT '''' (Finite False 5000) ''pending'' ''2024-03-05''"
    by (simp add: the_INSERT_def times_50 split_T_0_ok)
  have ok: "sql_throws env_ok (the_INSERT env_ok ?data) (invoices world_1) = None"
    by (simp add: env_ok_def)
  have "createInvoice env_ok JUndefined (form '''' ''50'' ''pending'') world_1 =
     (Thrown (NEXT_REDIRECT ''/dashboard/invoices''),
      \<lparr>invoices = [Row ''i1'' ''c7'' (Finite False 100) ''paid'' ''2024-01-01'',
                   Row ''i2'' '''' (Finite False 5000) ''pending'' ''2024-03-05''],
       trace = [Sql (INSERT '''' (Finite False 5000) ''pending'' ''2024-03-05''),
                RevalidatePath ''/dashboard/invoices'', Redirect ''/dashboard/invoices'']\<rparr>)"
    unfolding createInvoice_succeeds [OF p ok] i
    by (simp add: world_1_def env_ok_def)
  with p show ?thesis by blast
qed

text \<open>
  C3, as amended: the validation step accepts the customerId exactly when it is a string,
  the empty string included. For every input whose customerId is not a string (it is
  missing, or a file), \<open>createInvoice\<close> and \<open>updateInvoice\<close> fail validation with the
  customerId field error \<open>Please select a customer\<close>; for every input whose customerId
  is a string, a failed validation carries no customerId error.
\<close>

theorem C3_customerId_any_string:
  "(FormData_get formData ''customerId'' \<in> {Null, File} \<longrightarrow>
      (\<exists>errors.
         createInvoice env prevState formData w =
           (Returned (JObject [(''errors'', errors), (''message'', JString ''Validation failed'')]),
            w) \<and>
         updateInvoice env invoice_id prevState formData w =
           (Returned (JObject [(''errors'', errors), (''message'', JString ''Validation failed'')]),
            w) \<and>
         error_list errors ''customerId'' = [JString ''Please select a customer''])) \<and>
   (\<forall>s issues. FormData_get formData ''customerId'' = Text s \<longrightarrow>
      parse_form formData = Inl issues \<longrightarrow> error_list (format issues) ''customerId'' = []) \<and>
   (\<forall>s. FormData_get formData ''customerId'' = Text s \<longrightarrow>
      Number (FormData_get formData ''amount'') \<noteq> NaN \<longrightarrow>
      FormData_get formData ''status'' \<in> {Text ''pending'', Text ''paid''} \<longrightarrow>
      (\<exists>data. parse_form formData = Inr data \<and> customerId data = s))"
proof -
  let ?c = "FormData_get formData ''customerId''"
  let ?a = "FormData_get formData ''amount''"
  let ?s = "FormData_get formData ''status''"
  let ?ic = "issues_of (z_string ''Please select a customer'' ''customerId'' ?c)"
  let ?ia = "issues_of (z_coerce_number ''amount'' ?a)"
  let ?ist = "issues_of (z_enum [''pending'', ''paid''] ''Please select invoice status'' ''status'' ?s)"
  have not_text: "is_Text v \<longleftrightarrow> v \<notin> {Null, File}" for v
    by (cases v) (simp_all add: is_Text_def)
  have st: "filter (\<lambda>i. issue_path i = ''customerId'') ?ist = []"
  proof (cases "?s \<in> Text ` set [''pending'', ''paid'']")
    case True
    then show ?thesis by (simp only: issues_of_z_enum_valid filter.simps)
  next
    case False
    from issues_of_z_enum [OF this] obtain code msg
      where "?ist = [ZodIssue code ''status'' msg]" by blast
    then show ?thesis by simp
  qed
  have am: "filter (\<lambda>i. issue_path i = ''customerId'') ?ia = []"
    by (simp add: issues_of_z_coerce_number)
  have 1: "\<exists>errors.
         createInvoice env prevState formData w =
           (Returned (JObject [(''errors'', errors), (''message'', JString ''Validation failed'')]),
            w) \<and>
         updateInvoice env invoice_id prevState formData w =
           (Returned (JObject [(''errors'', errors), (''message'', JString ''Validation failed'')]),
            w) \<and>
         error_list errors ''customerId'' = [JString ''Please select a customer'']"
    if c: "?c \<in> {Null, File}"
  proof -
    from c have "\<not> valid_form ?c ?a ?s"
      by (auto simp add: valid_form_def not_text)
    from safeParse_invalid [OF this]
    have p: "parse_form formData = Inl (?ic @ ?ia @ ?ist)"
      by (simp add: parse_form_def)
    have "error_list (format (?ic @ ?ia @ ?ist)) ''customerId'' =
            [JString ''Please select a customer'']"
      using c by (auto simp add: error_list_format st am issues_of_z_string not_text)
    with createInvoice_invalid [OF p] updateInvoice_invalid [OF p] show ?thesis by blast
  qed
  have 2: "error_list (format issues) ''customerId'' = []"
    if c: "?c = Text s" and p: "parse_form formData = Inl issues" for s issues
  proof -
    have "\<not> valid_form ?c ?a ?s"
    proof
      assume "valid_form ?c ?a ?s"
      from safeParse_valid [OF this] p show False by (auto simp add: parse_form_def)
    qed
    from safeParse_invalid [OF this] p
    have "issues = ?ic @ ?ia @ ?ist"
      by (simp add: parse_form_def)
    then show ?thesis
      using c by (simp add: error_list_format st am issues_of_z_string is_Text_def)
  qed
  have 3: "\<exists>data. parse_form formData = Inr data \<and> customerId data = s"
    if c: "?c = Text s" and a: "Number ?a \<noteq> NaN" and s: "?s \<in> {Text ''pending'', Text ''paid''}"
    for s
  proof -
    have "valid_form ?c ?a ?s"
      using c a s by (simp add: valid_form_def is_Text_def)
    from safeParse_valid [OF this] c show ?thesis
      by (auto simp add: parse_form_def)
  qed
  from 1 2 3 show ?thesis by blast
qed

theorem C3_customerId_any_string_witness:
  "(\<exists>errors.
      createInvoice env_ok JUndefined form_without_customer world_1 =
        (Returned (JObject [(''errors'', errors), (''message'', JString ''Validation failed'')]),
         world_1) \<and>
      updateInvoice env_ok ''i1'' JUndefined form_without_customer world_1 =
        (Returned (JObject [(''errors'', errors), (''message'', JString ''Validation failed'')]),
         world_1) \<and>
      error_list errors ''customerId'' = [JString ''Please select a customer'']) \<and>
   (\<exists>data. parse_form (form '''' ''50'' ''pending'') = Inr data \<and> customerId data = '''') \<and>
   (\<exists>issues. parse_form (form '''' ''abc'' ''pending'') = Inl issues \<and>
      error_list (format issues) ''customerId'' = [])"
proof -
  have c: "FormData_get form_without_customer ''customerId'' \<in> {Null, File}"
    by (simp add: FormData_get_def form_without_customer_def)
  have a: "Number (FormData_get (form '''' ''50'' ''pending'') ''amount'') \<noteq> NaN"
    by (simp add: FormData_get_form StringToNumber_50)
  from C3_customerId_any_string [of form_without_customer env_ok JUndefined world_1 "''i1''"] c
  have 1: "\<exists>errors.
      createInvoice env_ok JUndefined form_without_customer world_1 =
        (Returned (JObject [(''errors'', errors), (''message'', JString ''Validation failed'')]),
         world_1) \<and>
      updateInvoice env_ok ''i1'' JUndefined form_without_customer world_1 =
        (Returned (JObject [(''errors'', errors), (''message'', JString ''Validation failed'')]),
         world_1) \<and>
      error_list errors ''customerId'' = [JString ''Please select a customer'']"
    by blast
  from C3_customerId_any_string [of "form '''' ''50'' ''pending''" env_ok JUndefined world_1 "''i1''"] a
  have 2: "\<exists>data. parse_form (form '''' ''50'' ''pending'') = Inr data \<and> customerId data = ''''"
    by (simp add: FormData_get_form)
  from C3_customerId_any_string [of "form '''' ''abc'' ''pending''" env_ok JUndefined world_1 "''i1''"]
  have 3: "\<forall>issues. parse_form (form '''' ''abc'' ''pending'') = Inl issues \<longrightarrow>
      error_list (format issues) ''customerId'' = []"
    by (simp add: FormData_get_form)
  have "\<not> valid_form (Text '''') (Text ''abc'') (Text ''pending'')"
    by (simp add: valid_form_def StringToNumber_abc)
  from safeParse_invalid [OF this]
  have "\<exists>issues. parse_form (form '''' ''abc'' ''pending'') = Inl issues"
    by (simp add: parse_form_def FormData_get_form)
  with 3 have 4: "\<exists>issues. parse_form (form '''' ''abc'' ''pending'') = Inl issues \<and>
      error_list (format issues) ''customerId'' = []"
    by blast
  from 1 2 4 show ?thesis by blast
qed

text \<open>
  C4: whenever the one statement of an action throws, \<open>createInvoice\<close>, \<open>updateInvoice\<close>
  and \<open>deleteInvoice\<close> return (they do not throw) the object holding exactly their fixed
  message, in which the error thrown by the database does not occur; the table is as it
  was, and the only thing the action has done is to send that statement.
\<close>

theorem C4_database_error:
  "(parse_form formData = Inr data \<longrightarrow>
    sql_throws env (the_INSERT env data) (invoices w) = Some e \<longrightarrow>
      createInvoice env prevState formData w =
        (Returned (JObject [(''message'', JString ''Database Error: failed to create invoice'')]),
         w\<lparr>trace := trace w @ [Sql (the_INSERT env data)]\<rparr>)) \<and>
   (parse_form formData = Inr data \<longrightarrow>
    sql_throws env (the_UPDATE invoice_id data) (invoices w) = Some e \<longrightarrow>
      updateInvoice env invoice_id prevState formData w =
        (Returned (JObject [(''message'', JString ''Database error: failed to update invoice'')]),
         w\<lparr>trace := trace w @ [Sql (the_UPDATE invoice_id data)]\<rparr>)) \<and>
   (sql_throws env (DELETE invoice_id) (invoices w) = Some e \<longrightarrow>
      deleteInvoice env invoice_id w =
        (Returned (JObject [(''message'', JString ''Database error: failed to delete invoice'')]),
         w\<lparr>trace := trace w @ [Sql (DELETE invoice_id)]\<rparr>))"
  using createInvoice_throws [of formData data env w e prevState]
    updateInvoice_throws [of formData data env invoice_id w e prevState]
    deleteInvoice_throws [of env invoice_id w e]
  by blast

theorem C4_database_error_witness:
  "createInvoice env_down JUndefined (form ''c1'' ''50'' ''pending'') world_1 =
     (Returned (JObject [(''message'', JString ''Database Error: failed to create invoice'')]),
      world_1\<lparr>trace := [Sql (INSERT ''c1'' (Finite False 5000) ''pending'' ''2024-03-05'')]\<rparr>) \<and>
   updateInvoice env_down ''i1'' JUndefined (form ''c1'' ''50'' ''pending'') world_1 =
     (Returned (JObject [(''message'', JString ''Database error: failed to update invoice'')]),
      world_1\<lparr>trace := [Sql (UPDATE ''c1'' (Finite False 5000) ''pending'' ''i1'')]\<rparr>) \<and>
   deleteInvoice env_down ''i1'' world_1 =
     (Returned (JObject [(''message'', JString ''Database error: failed to delete invoice'')]),
      world_1\<lparr>trace := [Sql (DELETE ''i1'')]\<rparr>)"
proof -
  let ?data = "\<lparr>customerId = ''c1'', amount = Finite False 50, status = ''pending''\<rparr>"
  let ?e = "Error ''connect ECONNREFUSED''"
  have p: "parse_form (form ''c1'' ''50'' ''pending'') = Inr ?data"
    by (rule parse_form_form) (simp_all add: StringToNumber_50)
  have down: "sql_throws env_down q rows = Some ?e" for q rows
    by (simp add: env_down_def)
  have i: "the_INSERT env_down ?data = INSERT ''c1'' (Finite False 5000) ''pending'' ''2024-03-05''"
    by (simp add: the_INSERT_def times_50 split_T_0_down)
  have u: "the_UPDATE ''i1'' ?data = UPDATE ''c1'' (Finite False 5000) ''pending'' ''i1''"
    by (simp add: the_UPDATE_def times_50)
  have t: "trace world_1 = []"
    by (simp add: world_1_def)
  from C4_database_error [of "form ''c1'' ''50'' ''pending''" ?data env_down world_1 ?e JUndefined
      "''i1''"] p down
  show ?thesis
    by (simp add: i u t)
qed

text \<open>
  C5: when the fields are valid and the INSERT succeeds, \<open>createInvoice\<close> sends the
  statement, then invalidates the cached listing \<open>/dashboard/invoices\<close>, then redirects
  to it, and leaves by the exception of the redirect. The logging of the raw form data
  that follows the redirect in the source is never carried out, whatever the input.
\<close>

theorem C5_revalidate_then_redirect:
  "(parse_form formData = Inr data \<longrightarrow>
    sql_throws env (the_INSERT env data) (invoices w) = None \<longrightarrow>
      fst (createInvoice env prevState formData w) = Thrown (NEXT_REDIRECT ''/dashboard/invoices'') \<and>
      new_events w (snd (createInvoice env prevState formData w)) =
        [Sql (the_INSERT env data), RevalidatePath ''/dashboard/invoices'',
         Redirect ''/dashboard/invoices'']) \<and>
   (\<forall>v. ConsoleLog v \<notin> set (new_events w (snd (createInvoice env prevState formData w))))"
proof -
  have 1: "fst (createInvoice env prevState formData w) =
             Thrown (NEXT_REDIRECT ''/dashboard/invoices'') \<and>
           new_events w (snd (createInvoice env prevState formData w)) =
             [Sql (the_INSERT env data), RevalidatePath ''/dashboard/invoices'',
              Redirect ''/dashboard/invoices'']"
    if p: "parse_form formData = Inr data"
      and ok: "sql_throws env (the_INSERT env data) (invoices w) = None"
    by (simp add: createInvoice_succeeds [OF p ok] new_events_def)
  have 2: "ConsoleLog v \<notin> set (new_events w (snd (createInvoice env prevState formData w)))" for v
  proof (cases formData rule: parse_form_cases)
    case (invalid issues)
    then show ?thesis
      by (simp add: createInvoice_invalid new_events_def)
  next
    case (valid d)
    show ?thesis
    proof (cases "sql_throws env (the_INSERT env d) (invoices w)")
      case None
      show ?thesis
        by (simp add: createInvoice_succeeds [OF valid(1) None] new_events_def)
    next
      case (Some e)
      show ?thesis
        by (simp add: createInvoice_throws [OF valid(1) Some] new_events_def)
    qed
  qed
  from 1 2 show ?thesis by blast
qed

theorem C5_revalidate_then_redirect_witness:
  "fst (createInvoice env_ok JUndefined (form ''c1'' ''50'' ''pending'') world_1) =
     Thrown (NEXT_REDIRECT ''/dashboard/invoices'') \<and>
   new_events world_1 (snd (createInvoice env_ok JUndefined (form ''c1'' ''50'' ''pending'') world_1)) =
     [Sql (INSERT ''c1'' (Finite False 5000) ''pending'' ''2024-03-05''),
      RevalidatePath ''/dashboard/invoices'', Redirect ''/dashboard/invoices'']"
proof -
  let ?data = "\<lparr>customerId = ''c1'', amount = Finite False 50, status = ''pending''\<rparr>"
  have p: "parse_form (form ''c1'' ''50'' ''pending'') = Inr ?data"
    by (rule parse_form_form) (simp_all add: StringToNumber_50)
  have ok: "sql_throws env_ok q rows = None" for q rows
    by (simp add: env_ok_def)
  have i: "the_INSERT env_ok ?data = INSERT ''c1'' (Finite False 5000) ''pending'' ''2024-03-05''"
    by (simp add: the_INSERT_def times_50 split_T_0_ok)
  from C5_revalidate_then_redirect [of "form ''c1'' ''50'' ''pending''" ?data env_ok world_1 JUndefined]
    p ok
  show ?thesis
    by (simp add: i)
qed

text \<open>
  C6: for validated fields \<open>updateInvoice\<close> sends exactly one statement, the UPDATE of
  customer_id, amount and status where the id is the target id. In the table afterwards
  every row keeps its id and its date, a row with another id is unchanged, and a row with
  the target id carries the three new values when the statement succeeded. When no row
  has the target id the table is unchanged, and the action ends as on any success, by
  the redirect.
\<close>

theorem C6_update_frame:
  assumes "parse_form formData = Inr data"
  shows "statements (new_events w (snd (updateInvoice env invoice_id prevState formData w))) =
           [UPDATE (customerId data) (times_number (amount data) (Finite False 100)) (status data)
              invoice_id] \<and>
         map row_id (invoices (snd (updateInvoice env invoice_id prevState formData w))) =
           map row_id (invoices w) \<and>
         map row_date (invoices (snd (updateInvoice env invoice_id prevState formData w))) =
           map row_date (invoices w) \<and>
         (\<forall>k < length (invoices w).
            row_id (invoices w ! k) \<noteq> invoice_id \<longrightarrow>
              invoices (snd (updateInvoice env invoice_id prevState formData w)) ! k =
                invoices w ! k) \<and>
         (\<forall>k < length (invoices w).
            row_id (invoices w ! k) = invoice_id \<longrightarrow>
            sql_throws env (the_UPDATE invoice_id data) (invoices w) = None \<longrightarrow>
              invoices (snd (updateInvoice env invoice_id prevState formData w)) ! k =
                Row invoice_id (customerId data) (times_number (amount data) (Finite False 100))
                  (status data) (row_date (invoices w ! k))) \<and>
         (invoice_id \<notin> row_id ` set (invoices w) \<longrightarrow>
            invoices (snd (updateInvoice env invoice_id prevState formData w)) = invoices w \<and>
            (sql_throws env (the_UPDATE invoice_id data) (invoices w) = None \<longrightarrow>
               fst (updateInvoice env invoice_id prevState formData w) =
                 Thrown (NEXT_REDIRECT ''/dashboard/invoices'')))"
proof (cases "sql_throws env (the_UPDATE invoice_id data) (invoices w)")
  case None
  note r = updateInvoice_succeeds [OF assms None]
  have 1: "statements (new_events w (snd (updateInvoice env invoice_id prevState formData w))) =
           [UPDATE (customerId data) (times_number (amount data) (Finite False 100)) (status data)
              invoice_id]"
    by (simp add: r new_events_def the_UPDATE_def)
  have 2: "invoices (snd (updateInvoice env invoice_id prevState formData w)) =
           run_statement (new_row_id env (invoices w))
             (UPDATE (customerId data) (times_number (amount data) (Finite False 100)) (status data)
                invoice_id) (invoices w)"
    by (simp add: r the_UPDATE_def)
  have 3: "fst (updateInvoice env invoice_id prevState formData w) =
             Thrown (NEXT_REDIRECT ''/dashboard/invoices'')"
    by (simp add: r)
  have 4: "invoice_id \<notin> row_id ` set (invoices w) \<longrightarrow>
           run_statement (new_row_id env (invoices w))
             (UPDATE (customerId data) (times_number (amount data) (Finite False 100)) (status data)
                invoice_id) (invoices w) = invoices w"
    using run_UPDATE_no_match by blast
  have 5: "\<forall>k < length (invoices w).
           run_statement (new_row_id env (invoices w))
             (UPDATE (customerId data) (times_number (amount data) (Finite False 100)) (status data)
                invoice_id) (invoices w) ! k =
           (if row_id (invoices w ! k) = invoice_id
            then Row invoice_id (customerId data) (times_number (amount data) (Finite False 100))
                   (status data) (row_date (invoices w ! k))
            else invoices w ! k)"
    using run_UPDATE_nth by blast
  show ?thesis
    unfolding 1 2 3
    using 4 5 by (simp only: run_UPDATE_ids run_UPDATE_dates) simp
next
  case (Some e)
  note r = updateInvoice_throws [OF assms Some]
  show ?thesis
    by (simp add: r new_events_def the_UPDATE_def Some [unfolded the_UPDATE_def])
qed


theorem C6_update_frame_witness:
  "statements (new_events world_1
     (snd (updateInvoice env_ok ''i1'' JUndefined (form ''c1'' ''50'' ''pending'') world_1))) =
     [UPDATE ''c1'' (Finite False 5000) ''pending'' ''i1''] \<and>
   invoices (snd (updateInvoice env_ok ''i1'' JUndefined (form ''c1'' ''50'' ''pending'') world_1)) =
     [Row ''i1'' ''c1'' (Finite False 5000) ''pending'' ''2024-01-01''] \<and>
   invoices (snd (updateInvoice env_ok ''i9'' JUndefined (form ''c1'' ''50'' ''pending'') world_1)) =
     invoices world_1 \<and>
   fst (updateInvoice env_ok ''i9'' JUndefined (form ''c1'' ''50'' ''pending'') world_1) =
     Thrown (NEXT_REDIRECT ''/dashboard/invoices'')"
proof -
  let ?data = "\<lparr>customerId = ''c1'', amount = Finite False 50, status = ''pending''\<rparr>"
  let ?w1 = "snd (updateInvoice env_ok ''i1'' JUndefined (form ''c1'' ''50'' ''pending'') world_1)"
  have p: "parse_form (form ''c1'' ''50'' ''pending'') = Inr ?data"
    by (rule parse_form_form) (simp_all add: StringToNumber_50)
  have ok: "sql_throws env_ok q rows = None" for q rows
    by (simp add: env_ok_def)
  have rows: "invoices world_1 = [Row ''i1'' ''c7'' (Finite False 100) ''paid'' ''2024-01-01'']"
    by (simp add: world_1_def)
  note hit = C6_update_frame [OF p, of world_1 env_ok "''i1''" JUndefined]
  note miss = C6_update_frame [OF p, of world_1 env_ok "''i9''" JUndefined]
  from hit have s: "statements (new_events world_1 ?w1) =
      [UPDATE ''c1'' (Finite False 5000) ''pending'' ''i1'']"
    by (simp add: times_50)
  from hit have "length (invoices ?w1) = 1"
    by (metis length_map rows length_Cons list.size(3) One_nat_def)
  moreover from hit have "invoices ?w1 ! 0 =
      Row ''i1'' ''c1'' (Finite False 5000) ''pending'' ''2024-01-01''"
    by (simp add: rows ok times_50)
  ultimately have h: "invoices ?w1 = [Row ''i1'' ''c1'' (Finite False 5000) ''pending'' ''2024-01-01'']"
    by (cases "invoices ?w1") simp_all
  from miss have m: "invoices
       (snd (updateInvoice env_ok ''i9'' JUndefined (form ''c1'' ''50'' ''pending'') world_1)) =
        invoices world_1 \<and>
      fst (updateInvoice env_ok ''i9'' JUndefined (form ''c1'' ''50'' ''pending'') world_1) =
        Thrown (NEXT_REDIRECT ''/dashboard/invoices'')"
    by (simp add: rows ok)
  from s h m show ?thesis by blast
qed

text \<open>
  C7: for every id \<open>deleteInvoice\<close> takes no form data and validates nothing; it sends
  exactly one statement, the DELETE where the id is the given id; it never redirects.
  When the statement succeeds the action returns normally with no value, after
  invalidating the cached listing \<open>/dashboard/invoices\<close>; this is so also when no row has
  the id, in which case the table is unchanged.
\<close>

theorem C7_delete:
  "statements (new_events w (snd (deleteInvoice env invoice_id w))) = [DELETE invoice_id] \<and>
   (\<forall>p. Redirect p \<notin> set (new_events w (snd (deleteInvoice env invoice_id w)))) \<and>
   (\<forall>p. fst (deleteInvoice env invoice_id w) \<noteq> Thrown (NEXT_REDIRECT p)) \<and>
   (sql_throws env (DELETE invoice_id) (invoices w) = None \<longrightarrow>
      deleteInvoice env invoice_id w =
        (Returned JUndefined,
         w\<lparr>invoices := filter (\<lambda>r. row_id r \<noteq> invoice_id) (invoices w),
           trace := trace w @ [Sql (DELETE invoice_id), RevalidatePath ''/dashboard/invoices'']\<rparr>) \<and>
      (invoice_id \<notin> row_id ` set (invoices w) \<longrightarrow>
         invoices (snd (deleteInvoice env invoice_id w)) = invoices w))"
proof (cases "sql_throws env (DELETE invoice_id) (invoices w)")
  case None
  note r = deleteInvoice_succeeds [OF None]
  have "invoice_id \<notin> row_id ` set (invoices w) \<longrightarrow>
          filter (\<lambda>r. row_id r \<noteq> invoice_id) (invoices w) = invoices w"
    using run_DELETE_no_match [of invoice_id "invoices w"] by simp
  then show ?thesis
    by (simp add: r new_events_def)
next
  case (Some e)
  note r = deleteInvoice_throws [OF Some]
  show ?thesis
    by (simp add: r new_events_def Some)
qed

theorem C7_delete_witness:
  "deleteInvoice env_ok ''i9'' world_1 =
     (Returned JUndefined,
      world_1\<lparr>trace := [Sql (DELETE ''i9''), RevalidatePath ''/dashboard/invoices'']\<rparr>) \<and>
   deleteInvoice env_ok ''i1'' world_1 =
     (Returned JUndefined,
      \<lparr>invoices = [], trace = [Sql (DELETE ''i1''), RevalidatePath ''/dashboard/invoices'']\<rparr>)"
proof -
  have ok: "sql_throws env_ok q rows = None" for q rows
    by (simp add: env_ok_def)
  from C7_delete [of world_1 env_ok "''i9''"] ok
  have 1: "deleteInvoice env_ok ''i9'' world_1 =
     (Returned JUndefined,
      world_1\<lparr>trace := [Sql (DELETE ''i9''), RevalidatePath ''/dashboard/invoices'']\<rparr>)"
    by (simp add: world_1_def)
  from C7_delete [of world_1 env_ok "''i1''"] ok
  have 2: "deleteInvoice env_ok ''i1'' world_1 =
     (Returned JUndefined,
      \<lparr>invoices = [], trace = [Sql (DELETE ''i1''), RevalidatePath ''/dashboard/invoices'']\<rparr>)"
    by (simp add: world_1_def)
  from 1 2 show ?thesis by blast
qed

text \<open>
  C8: when the sign-in procedure throws an \<open>AuthError\<close> of type \<open>CredentialsSignin\<close>,
  \<open>authenticate\<close> returns exactly \<open>Invalid credentials.\<close>; when it throws an
  \<open>AuthError\<close> of any other type, it returns \<open>Something went wrong.\<close>; when it throws
  anything that is not an \<open>AuthError\<close>, \<open>authenticate\<close> throws that same error.
\<close>

theorem C8_authenticate:
  "(signIn_throws env ''credentials'' formData = Some (AuthError ''CredentialsSignin'') \<longrightarrow>
      fst (authenticate env prevState formData w) = Returned (JString ''Invalid credentials.'')) \<and>
   (\<forall>t. t \<noteq> ''CredentialsSignin'' \<longrightarrow>
      signIn_throws env ''credentials'' formData = Some (AuthError t) \<longrightarrow>
      fst (authenticate env prevState formData w) = Returned (JString ''Something went wrong.'')) \<and>
   (\<forall>e. (\<forall>t. e \<noteq> AuthError t) \<longrightarrow>
      signIn_throws env ''credentials'' formData = Some e \<longrightarrow>
      fst (authenticate env prevState formData w) = Thrown e)"
proof -
  have 1: "fst (authenticate env prevState formData w) =
             (if t = ''CredentialsSignin'' then Returned (JString ''Invalid credentials.'')
              else Returned (JString ''Something went wrong.''))"
    if "signIn_throws env ''credentials'' formData = Some (AuthError t)" for t
    using that
    by (simp add: authenticate_def call_def try_catch_def signIn_def return_def)
  have 2: "fst (authenticate env prevState formData w) = Thrown e"
    if "signIn_throws env ''credentials'' formData = Some e" and "\<forall>t. e \<noteq> AuthError t" for e
    using that
    by (cases e) (simp_all add: authenticate_def call_def try_catch_def signIn_def throw_def)
  have a: "signIn_throws env ''credentials'' formData = Some (AuthError ''CredentialsSignin'') \<longrightarrow>
      fst (authenticate env prevState formData w) = Returned (JString ''Invalid credentials.'')"
    using 1 [of "''CredentialsSignin''"] by simp
  have b: "\<forall>t. t \<noteq> ''CredentialsSignin'' \<longrightarrow>
      signIn_throws env ''credentials'' formData = Some (AuthError t) \<longrightarrow>
      fst (authenticate env prevState formData w) = Returned (JString ''Something went wrong.'')"
    using 1 by simp
  have c: "\<forall>e. (\<forall>t. e \<noteq> AuthError t) \<longrightarrow>
      signIn_throws env ''credentials'' formData = Some e \<longrightarrow>
      fst (authenticate env prevState formData w) = Thrown e"
    using 2 by blast
  from a b c show ?thesis
    by (intro conjI)
qed

theorem C8_authenticate_witness:
  "fst (authenticate (env_signIn_throws (AuthError ''CredentialsSignin'')) JUndefined [] world_1) =
     Returned (JString ''Invalid credentials.'') \<and>
   fst (authenticate (env_signIn_throws (AuthError ''CallbackRouteError'')) JUndefined [] world_1) =
     Returned (JString ''Something went wrong.'') \<and>
   fst (authenticate (env_signIn_throws (Error ''fetch failed'')) JUndefined [] world_1) =
     Thrown (Error ''fetch failed'') \<and>
   fst (authenticate (env_signIn_throws (NEXT_REDIRECT ''/dashboard'')) JUndefined [] world_1) =
     Thrown (NEXT_REDIRECT ''/dashboard'')"
proof -
  have t: "signIn_throws (env_signIn_throws e) p f = Some e" for e p f
    by (simp add: env_signIn_throws_def)
  from C8_authenticate [of "env_signIn_throws (AuthError ''CredentialsSignin'')" "[]" JUndefined world_1]
  have 1: "fst (authenticate (env_signIn_throws (AuthError ''CredentialsSignin'')) JUndefined []
             world_1) = Returned (JString ''Invalid credentials.'')"
    by (simp add: t)
  from C8_authenticate [of "env_signIn_throws (AuthError ''CallbackRouteError'')" "[]" JUndefined world_1]
  have 2: "fst (authenticate (env_signIn_throws (AuthError ''CallbackRouteError'')) JUndefined []
             world_1) = Returned (JString ''Something went wrong.'')"
    by (simp add: t)
  from C8_authenticate [of "env_signIn_throws (Error ''fetch failed'')" "[]" JUndefined world_1]
  have 3: "fst (authenticate (env_signIn_throws (Error ''fetch failed'')) JUndefined [] world_1) =
             Thrown (Error ''fetch failed'')"
    by (simp add: t)
  from C8_authenticate [of "env_signIn_throws (NEXT_REDIRECT ''/dashboard'')" "[]" JUndefined world_1]
  have 4: "fst (authenticate (env_signIn_throws (NEXT_REDIRECT ''/dashboard'')) JUndefined [] world_1) =
             Thrown (NEXT_REDIRECT ''/dashboard'')"
    by (simp add: t)
  from 1 2 3 4 show ?thesis by blast
qed

text \<open>
  C9: a form with no customer selected. The action returns, under \<open>errors\<close>, the
  formatted error object: a top-level \<open>_errors\<close> list and, under \<open>customerId\<close>, an
  object \<open>{ _errors: [message] }\<close> in place of the list of messages. The returned value
  is not of the declared type \<open>State\<close>.
\<close>

theorem C9_errors_not_State:
  "createInvoice env_ok JUndefined [(''amount'', Text ''50''), (''status'', Text ''paid'')] world_1 =
     (Returned
        (JObject
           [(''errors'',
             JObject [(''_errors'', JArray []),
                      (''customerId'',
                       JObject [(''_errors'', JArray [JString ''Please select a customer''])])]),
            (''message'', JString ''Validation failed'')]),
      world_1) \<and>
   updateInvoice env_ok ''i1'' JUndefined [(''amount'', Text ''50''), (''status'', Text ''paid'')]
       world_1 =
     (Returned
        (JObject
           [(''errors'',
             JObject [(''_errors'', JArray []),
                      (''customerId'',
                       JObject [(''_errors'', JArray [JString ''Please select a customer''])])]),
            (''message'', JString ''Validation failed'')]),
      world_1) \<and>
   \<not> is_State
        (JObject
           [(''errors'',
             JObject [(''_errors'', JArray []),
                      (''customerId'',
                       JObject [(''_errors'', JArray [JString ''Please select a customer''])])]),
            (''message'', JString ''Validation failed'')]) \<and>
   is_State
        (JObject
           [(''errors'', JObject [(''customerId'', JArray [JString ''Please select a customer''])]),
            (''message'', JString ''Validation failed'')])"
proof -
  let ?fd = "[(''amount'', Text ''50''), (''status'', Text ''paid'')]"
  have g: "FormData_get ?fd ''customerId'' = Null" "FormData_get ?fd ''amount'' = Text ''50''"
    "FormData_get ?fd ''status'' = Text ''paid''"
    by (simp_all add: FormData_get_def)
  have "\<not> valid_form Null (Text ''50'') (Text ''paid'')"
    by (simp add: valid_form_def is_Text_def)
  from safeParse_invalid [OF this]
  have p: "parse_form ?fd = Inl [ZodIssue ''invalid_type'' ''customerId'' ''Please select a customer'']"
    by (simp add: parse_form_def g issues_of_z_string is_Text_def issues_of_z_coerce_number
        StringToNumber_50 issues_of_z_enum_valid)
  have f: "format [ZodIssue ''invalid_type'' ''customerId'' ''Please select a customer''] =
             JObject [(''_errors'', JArray []),
                      (''customerId'',
                       JObject [(''_errors'', JArray [JString ''Please select a customer''])])]"
    by (simp add: format_def fieldErrors_def)
  have n: "\<not> is_State
        (JObject
           [(''errors'',
             JObject [(''_errors'', JArray []),
                      (''customerId'',
                       JObject [(''_errors'', JArray [JString ''Please select a customer''])])]),
            (''message'', JString ''Validation failed'')])"
    by (simp add: is_State_def optional_def is_State_errors_def is_string_array_def)
  have y: "is_State
        (JObject
           [(''errors'', JObject [(''customerId'', JArray [JString ''Please select a customer''])]),
            (''message'', JString ''Validation failed'')])"
    by (simp add: is_State_def optional_def is_State_errors_def is_string_array_def)
  from createInvoice_invalid [OF p, of env_ok JUndefined world_1]
    updateInvoice_invalid [OF p, of env_ok "''i1''" JUndefined world_1] n y
  show ?thesis
    by (simp only: f) simp
qed

text \<open>
  C10: \<open>deleteInvoice\<close> sends the DELETE first, and signals the invalidation of the cached
  listing after it only when the DELETE did not throw. Whenever the DELETE throws, the
  action returns its error message and no invalidation has been signalled.
\<close>

theorem C10_no_invalidation_on_failure:
  "new_events w (snd (deleteInvoice env invoice_id w)) =
     Sql (DELETE invoice_id) #
       (if sql_throws env (DELETE invoice_id) (invoices w) = None
        then [RevalidatePath ''/dashboard/invoices''] else []) \<and>
   (sql_throws env (DELETE invoice_id) (invoices w) = Some e \<longrightarrow>
      fst (deleteInvoice env invoice_id w) =
        Returned (JObject [(''message'', JString ''Database error: failed to delete invoice'')]) \<and>
      (\<forall>p. RevalidatePath p \<notin> set (new_events w (snd (deleteInvoice env invoice_id w)))))"
proof (cases "sql_throws env (DELETE invoice_id) (invoices w)")
  case None
  show ?thesis
    by (simp add: deleteInvoice_succeeds [OF None] new_events_def None)
next
  case (Some e')
  show ?thesis
    by (simp add: deleteInvoice_throws [OF Some] new_events_def Some)
qed

theorem C10_no_invalidation_on_failure_witness:
  "new_events world_1 (snd (deleteInvoice env_down ''i1'' world_1)) = [Sql (DELETE ''i1'')] \<and>
   fst (deleteInvoice env_down ''i1'' world_1) =
     Returned (JObject [(''message'', JString ''Database error: failed to delete invoice'')]) \<and>
   trace (snd (deleteInvoice env_down ''i1'' world_1)) = [Sql (DELETE ''i1'')] \<and>
   new_events world_1 (snd (deleteInvoice env_ok ''i1'' world_1)) =
     [Sql (DELETE ''i1''), RevalidatePath ''/dashboard/invoices'']"
proof -
  have down: "sql_throws env_down q rows = Some (Error ''connect ECONNREFUSED'')" for q rows
    by (simp add: env_down_def)
  have ok: "sql_throws env_ok q rows = None" for q rows
    by (simp add: env_ok_def)
  have t: "trace world_1 = []"
    by (simp add: world_1_def)
  from C10_no_invalidation_on_failure [of world_1 env_down "''i1''" "Error ''connect ECONNREFUSED''"]
  have 1: "new_events world_1 (snd (deleteInvoice env_down ''i1'' world_1)) = [Sql (DELETE ''i1'')] \<and>
     fst (deleteInvoice env_down ''i1'' world_1) =
       Returned (JObject [(''message'', JString ''Database error: failed to delete invoice'')])"
    by (simp add: down)
  then have 2: "trace (snd (deleteInvoice env_down ''i1'' world_1)) = [Sql (DELETE ''i1'')]"
    by (simp add: new_events_def t)
  from C10_no_invalidation_on_failure [of world_1 env_ok "''i1''" "Error ''connect ECONNREFUSED''"]
  have 3: "new_events world_1 (snd (deleteInvoice env_ok ''i1'' world_1)) =
     [Sql (DELETE ''i1''), RevalidatePath ''/dashboard/invoices'']"
    by (simp add: ok)
  from 1 2 3 show ?thesis by blast
qed

end
